theory Spec2Isabelle
  imports Complex_Main "HOL-Library.Extended_Nat"
begin

section \<open>Shared types\<close>

text \<open>
  Python exceptions raised by the modelled code, as values. The string is the message
  that \<open>str(e)\<close> yields. \<open>DoesNotExist\<close>, \<open>IntegrityError\<close> and
  \<open>MultipleObjectsReturned\<close> are the database errors of the ORM calls used (a \<open>get\<close>
  that finds no row, a \<open>create\<close> that violates the one-to-one constraint of
  \<open>Order.signal\<close>, a \<open>get\<close> that finds several rows).
\<close>

datatype exn =
    PermissionError string
  | ValueError string
  | RuntimeError string
  | DoesNotExist string
  | IntegrityError string
  | MultipleObjectsReturned string

fun exn_str :: "exn \<Rightarrow> string" where
  "exn_str (PermissionError m) = m"
| "exn_str (ValueError m) = m"
| "exn_str (RuntimeError m) = m"
| "exn_str (DoesNotExist m) = m"
| "exn_str (IntegrityError m) = m"
| "exn_str (MultipleObjectsReturned m) = m"

text \<open>Timestamps are points of a discrete clock.\<close>

type_synonym timestamp = nat

section \<open>Circuit breaker (apps/trading\_core/circuit\_breaker.py)\<close>

text \<open>The row of the model \<open>CircuitBreakerState\<close> (apps/trading\_core/models.py).\<close>

record CircuitBreakerState =
  is_tripped :: bool
  tripped_at :: "timestamp option"
  reason :: "string option"
  consecutive_losses :: nat
  last_reset_at :: timestamp

text \<open>The field defaults of the model; \<open>last_reset_at\<close> defaults to the current time.\<close>

definition default_breaker_state :: "timestamp \<Rightarrow> CircuitBreakerState" where
  "default_breaker_state now =
     \<lparr>is_tripped = False, tripped_at = None, reason = None,
      consecutive_losses = 0, last_reset_at = now\<rparr>"

text \<open>
  \<open>CircuitBreakerState.objects.get_or_create(id=1)\<close>: the table holds the singleton row
  or nothing; a missing row is created from the defaults. The result is the row read and
  the table afterwards.
\<close>

definition get_or_create_state ::
  "timestamp \<Rightarrow> CircuitBreakerState option \<Rightarrow> CircuitBreakerState \<times> CircuitBreakerState option" where
  "get_or_create_state now row =
     (case row of
        Some s \<Rightarrow> (s, Some s)
      | None \<Rightarrow> (default_breaker_state now, Some (default_breaker_state now)))"

text \<open>Python's \<open>f"{state.reason}"\<close> of a nullable field.\<close>

definition fmt_reason :: "string option \<Rightarrow> string" where
  "fmt_reason r = (case r of None \<Rightarrow> ''None'' | Some m \<Rightarrow> m)"

text \<open>
  \<open>CircuitBreaker.check\<close>: the outcome (\<open>Inl\<close> the raised exception, \<open>Inr ()\<close> a normal
  return) and the table afterwards.
\<close>

definition check ::
  "timestamp \<Rightarrow> CircuitBreakerState option \<Rightarrow> (exn + unit) \<times> CircuitBreakerState option" where
  "check now row =
     (let (state, row') = get_or_create_state now row
      in if is_tripped state
         then (Inl (PermissionError (''Circuit Breaker Tripped: '' @ fmt_reason (reason state))), row')
         else (Inr (), row'))"

text \<open>\<open>CircuitBreaker.reset\<close>.\<close>

definition reset :: "timestamp \<Rightarrow> CircuitBreakerState option \<Rightarrow> CircuitBreakerState option" where
  "reset now row =
     (let (state, row') = get_or_create_state now row
      in Some (state\<lparr>is_tripped := False, reason := None,
                     consecutive_losses := 0, last_reset_at := now\<rparr>))"

section \<open>Risk manager (apps/trading\_core/risk\_manager.py)\<close>

text \<open>
  The attributes set by \<open>RiskManager.__init__\<close>. Decimal quantities are their exact
  values; the OHLCV frame is kept abstract.
\<close>

record 'df RiskManager =
  account_balance :: real
  risk_per_trade_pct :: real
  df_ohlcv :: 'df
  risk_amount :: real

text \<open>
  The literal \<open>0.1\<close> in \<open>0 < risk_per_trade_pct < 0.1\<close> is a binary double: its exact
  value is \<open>3602879701896397 / 2^55\<close>, a little above one tenth. Python compares a
  \<open>Decimal\<close> with a \<open>float\<close> by their exact values.
\<close>

definition float_0_1 :: real where
  "float_0_1 = 3602879701896397 / 36028797018963968"

definition RiskManager_init :: "real \<Rightarrow> real \<Rightarrow> 'df \<Rightarrow> exn + 'df RiskManager" where
  "RiskManager_init balance risk_pct df =
     (if \<not> (0 < risk_pct \<and> risk_pct < float_0_1)
      then Inl (ValueError ''risk_per_trade_pct must be between 0 and 0.1'')
      else Inr \<lparr>account_balance = balance, risk_per_trade_pct = risk_pct,
                df_ohlcv = df, risk_amount = balance * risk_pct\<rparr>)"

section \<open>Persistent state (apps/trading\_core/models.py)\<close>

text \<open>JSON values held in the \<open>meta\<close> and \<open>broker_response\<close> dictionaries.\<close>

datatype json = JStr string | JNum real

text \<open>
  The row of \<open>TradingSignal\<close>. \<open>status\<close> is one of the strings \<open>PENDING\<close>,
  \<open>EXECUTED\<close>, \<open>CANCELLED\<close>; \<open>signal_type\<close> one of \<open>BUY\<close>, \<open>SELL\<close>.
\<close>

record TradingSignal =
  sig_pk :: nat
  asset :: string
  timestamp :: timestamp
  signal_type :: string
  entry_price :: real
  stop_loss :: real
  take_profit :: real
  position_size :: real
  status :: string
  meta :: "string \<rightharpoonup> json"

text \<open>
  The row of \<open>Order\<close>. \<open>order_signal\<close> is the one-to-one key to the signal;
  \<open>order_status\<close> is one of \<open>SENT\<close>, \<open>FILLED\<close>, \<open>CANCELLED\<close>, \<open>REJECTED\<close>, \<open>FAILED\<close>.
\<close>

record Order =
  order_signal :: nat
  broker_order_id :: "string option"
  order_status :: string
  sent_at :: timestamp
  executed_at :: "timestamp option"
  broker_response :: "string \<rightharpoonup> json"

text \<open>The three tables the execution path reads and writes.\<close>

record db =
  signals :: "TradingSignal list"
  orders :: "Order list"
  breaker :: "CircuitBreakerState option"

text \<open>\<open>TradingSignal.objects.select_for_update().get(pk=pk)\<close>.\<close>

definition get_signal :: "db \<Rightarrow> nat \<Rightarrow> exn + TradingSignal" where
  "get_signal d pk =
     (case find (\<lambda>s. sig_pk s = pk) (signals d) of
        None \<Rightarrow> Inl (DoesNotExist ''TradingSignal matching query does not exist.'')
      | Some s \<Rightarrow> Inr s)"

text \<open>\<open>signal.save()\<close>: update the row with that primary key, insert it when there is none.\<close>

definition save_signal :: "db \<Rightarrow> TradingSignal \<Rightarrow> db" where
  "save_signal d s =
     (if list_ex (\<lambda>x. sig_pk x = sig_pk s) (signals d)
      then d\<lparr>signals := map (\<lambda>x. if sig_pk x = sig_pk s then s else x) (signals d)\<rparr>
      else d\<lparr>signals := signals d @ [s]\<rparr>)"

text \<open>
  \<open>Order.objects.create(signal=s, status="SENT")\<close>. The one-to-one field makes a second
  order for the same signal an integrity error (the message is the database's).
\<close>

definition create_order :: "db \<Rightarrow> Order \<Rightarrow> exn + db" where
  "create_order d ord =
     (if list_ex (\<lambda>x. order_signal x = order_signal ord) (orders d)
      then Inl (IntegrityError ''UNIQUE constraint failed: trading_core_order.signal_id'')
      else Inr (d\<lparr>orders := orders d @ [ord]\<rparr>))"

text \<open>\<open>order.save()\<close> of an order created before: its row is overwritten.\<close>

definition save_order :: "db \<Rightarrow> Order \<Rightarrow> db" where
  "save_order d ord =
     d\<lparr>orders := map (\<lambda>x. if order_signal x = order_signal ord then ord else x) (orders d)\<rparr>"

text \<open>The orders of a signal: \<open>Order.objects.filter(signal=s)\<close>.\<close>

definition orders_of :: "db \<Rightarrow> nat \<Rightarrow> Order list" where
  "orders_of d pk = filter (\<lambda>x. order_signal x = pk) (orders d)"

section \<open>Execution manager (apps/trading\_core/execution\_manager.py)\<close>

text \<open>Decimal rendering of a primary key, for \<open>f"demo_{signal.id}"\<close>.\<close>

function show_nat :: "nat \<Rightarrow> string" where
  "show_nat n =
     (if n < 10 then [char_of (48 + n)]
      else show_nat (n div 10) @ [char_of (48 + n mod 10)])"
  by pat_completeness auto
termination
  by (relation "measure id") auto

declare show_nat.simps [simp del]

text \<open>
  \<open>_process_order\<close>: create the order as \<open>SENT\<close>; in live mode raise, otherwise fill the
  order, save it, mark the signal \<open>EXECUTED\<close> and save it.
\<close>

definition process_order ::
  "string \<Rightarrow> timestamp \<Rightarrow> TradingSignal \<Rightarrow> db \<Rightarrow> exn + (db \<times> Order)" where
  "process_order mode now signal_to_execute d =
     (let ord = \<lparr>order_signal = sig_pk signal_to_execute, broker_order_id = None,
                 order_status = ''SENT'', sent_at = now, executed_at = None,
                 broker_response = Map.empty\<rparr>
      in case create_order d ord of
           Inl e \<Rightarrow> Inl e
         | Inr d1 \<Rightarrow>
             if mode = ''live''
             then Inl (RuntimeError ''Live trading is disabled. Enable explicitly in settings after passing all acceptance tests.'')
             else
               let ord' = ord\<lparr>broker_order_id := Some (''demo_'' @ show_nat (sig_pk signal_to_execute)),
                              order_status := ''FILLED'',
                              executed_at := Some now,
                              broker_response :=
                                [''message'' \<mapsto> JStr ''Trade executed successfully in demo mode.'']\<rparr>;
                   d2 = save_order d1 ord';
                   d3 = save_signal d2 (signal_to_execute\<lparr>status := ''EXECUTED''\<rparr>)
               in Inr (d3, ord'))"

text \<open>
  The body of \<open>with transaction.atomic():\<close> in \<open>execute_trade\<close>. \<open>Inr (d, None)\<close> is the
  early \<open>return\<close> on a signal that is not pending, \<open>Inr (d, Some ord)\<close> the normal end of
  the block, \<open>Inl e\<close> an exception leaving the block. An exception that leaves an atomic
  block rolls the transaction back, so no table state comes with \<open>Inl\<close>: the caller goes
  on from the tables as they were when the block was entered.
\<close>

definition atomic_block ::
  "string \<Rightarrow> timestamp \<Rightarrow> TradingSignal \<Rightarrow> db \<Rightarrow> exn + (db \<times> Order option)" where
  "atomic_block mode now self_signal d =
     (case get_signal d (sig_pk self_signal) of
        Inl e \<Rightarrow> Inl e
      | Inr signal_to_execute \<Rightarrow>
          if status signal_to_execute \<noteq> ''PENDING'' then Inr (d, None)
          else
            (case check now (breaker d) of
               (Inl e, row') \<Rightarrow> Inl e
             | (Inr u, row') \<Rightarrow>
                 (case process_order mode now signal_to_execute (d\<lparr>breaker := row'\<rparr>) of
                    Inl e \<Rightarrow> Inl e
                  | Inr (d', ord) \<Rightarrow> Inr (d', Some ord))))"

text \<open>\<open>_handle_cancellation\<close>: the manager's own copy of the signal is marked and saved.\<close>

definition handle_cancellation :: "TradingSignal \<Rightarrow> string \<Rightarrow> db \<Rightarrow> db" where
  "handle_cancellation self_signal why d =
     save_signal d (self_signal\<lparr>status := ''CANCELLED'',
                                meta := (meta self_signal)(''cancel_reason'' \<mapsto> JStr why)\<rparr>)"

text \<open>
  \<open>_handle_failure\<close>: \<open>Order.objects.filter(signal=self.signal).update(status="FAILED", ...)\<close>;
  the signal is left as it is.
\<close>

definition handle_failure :: "TradingSignal \<Rightarrow> string \<Rightarrow> db \<Rightarrow> db" where
  "handle_failure self_signal err d =
     d\<lparr>orders := map (\<lambda>x. if order_signal x = sig_pk self_signal
                            then x\<lparr>order_status := ''FAILED'',
                                   broker_response := [''error'' \<mapsto> JStr err]\<rparr>
                            else x) (orders d)\<rparr>"

text \<open>
  \<open>execute_trade\<close>. \<open>mode\<close> is \<open>settings.TRADING_CONFIG["EXECUTION_MODE"]\<close>, \<open>self_signal\<close>
  the signal object the manager was built with. The result is \<open>Inl\<close> for an exception
  that reaches the caller and \<open>Inr\<close> the tables after a normal return; both \<open>except\<close>
  clauses swallow what they catch.
\<close>

definition execute_trade :: "string \<Rightarrow> timestamp \<Rightarrow> TradingSignal \<Rightarrow> db \<Rightarrow> exn + db" where
  "execute_trade mode now self_signal d =
     (case atomic_block mode now self_signal d of
        Inr (d', ord) \<Rightarrow> Inr d'
      | Inl (PermissionError m) \<Rightarrow> Inr (handle_cancellation self_signal m d)
      | Inl e \<Rightarrow> Inr (handle_failure self_signal (exn_str e) d))"

text \<open>A pending signal with no order, and a store holding it, for concrete runs.\<close>

definition example_signal :: TradingSignal where
  "example_signal =
     \<lparr>sig_pk = 1, asset = ''XAUUSD'', timestamp = 5, signal_type = ''BUY'',
      entry_price = 2000, stop_loss = 1990, take_profit = 2020, position_size = 1,
      status = ''PENDING'', meta = Map.empty\<rparr>"

definition example_db :: db where
  "example_db = \<lparr>signals = [example_signal], orders = [], breaker = None\<rparr>"

definition executed_db :: db where
  "executed_db =
     \<lparr>signals = [example_signal\<lparr>status := ''EXECUTED''\<rparr>], orders = [], breaker = None\<rparr>"

section \<open>Decision manager (apps/trading\_core/decision\_manager.py)\<close>

text \<open>
  What \<open>run_analysis\<close> obtains from its collaborators (the OHLCV loader, the indicator
  library, the model registry and the feature pipeline), in the order it asks for it.
  \<open>ml_prob = None\<close> stands for an exception inside the inference \<open>try\<close> block.
\<close>

record market =
  load_failed :: bool
  len_h1 :: nat
  len_d1 :: nat
  d1_adx :: real
  d1_atr :: real
  h1_ema200 :: real
  h1_rsi :: real
  h1_adx :: real
  last_close :: real
  last_open :: real
  active_model :: bool
  ml_prob :: "real option"
  vol_std :: real

text \<open>\<open>Decimal.quantize\<close> to a number of decimal places, rounding half to even.\<close>

definition round_half_even :: "real \<Rightarrow> int" where
  "round_half_even x =
     (let f = \<lfloor>x\<rfloor>; r = x - of_int f
      in if r < 1 / 2 then f else if 1 / 2 < r then f + 1 else if even f then f else f + 1)"

definition quantize :: "nat \<Rightarrow> real \<Rightarrow> real" where
  "quantize places x = of_int (round_half_even (x * 10 ^ places)) / 10 ^ places"

text \<open>
  \<open>TradingSignal.objects.get_or_create(asset=a, timestamp=t, defaults=...)\<close>: the row
  found, or a new row with a fresh primary key; more than one match is an error. The
  result is the signal, the \<open>created\<close> flag and the tables afterwards.
\<close>

definition fresh_pk :: "db \<Rightarrow> nat" where
  "fresh_pk d = Suc (fold max (map sig_pk (signals d)) 0)"

definition get_or_create_signal ::
  "db \<Rightarrow> TradingSignal \<Rightarrow> exn + (TradingSignal \<times> bool \<times> db)" where
  "get_or_create_signal d defaults =
     (case filter (\<lambda>s. asset s = asset defaults \<and> timestamp s = timestamp defaults) (signals d) of
        [] \<Rightarrow> (let s = defaults\<lparr>sig_pk := fresh_pk d\<rparr>
               in Inr (s, True, d\<lparr>signals := signals d @ [s]\<rparr>))
      | [s] \<Rightarrow> Inr (s, False, d)
      | _ \<Rightarrow> Inl (MultipleObjectsReturned ''get() returned more than one TradingSignal''))"

text \<open>
  \<open>DecisionManager.run_analysis\<close>. \<open>mode\<close> is the execution mode of the settings,
  \<open>balance\<close> the configured account balance, \<open>now\<close> the time the signal is stamped with
  and \<open>now'\<close> the time of the execution that follows. Every \<open>return\<close> of the source
  that gives up leaves the tables as they are.
\<close>

definition run_analysis ::
  "string \<Rightarrow> string \<Rightarrow> real \<Rightarrow> timestamp \<Rightarrow> timestamp \<Rightarrow> market \<Rightarrow> db \<Rightarrow> exn + db" where
  "run_analysis mode symbol balance now now' m d =
     (if load_failed m then Inr d
      else if len_h1 m < 200 \<or> len_d1 m < 50 then Inr d
      else if d1_atr m < 15 \<or> d1_adx m < 20 then Inr d
      else if \<not> (last_close m > h1_ema200 m \<and> h1_rsi m < 45 \<and> h1_adx m > 20
                  \<and> last_close m > last_open m) then Inr d
      else if \<not> active_model m then Inr d
      else
        (case ml_prob m of
           None \<Rightarrow> Inr d
         | Some p \<Rightarrow>
             if p < 6 / 10 then Inr d
             else
               let current_vol = vol_std m;
                   current_price = last_close m;
                   raw_stop_dist = current_price * current_vol * (15 / 10);
                   stop_dist = max raw_stop_dist (25 / 10);
                   stop_loss = current_price - stop_dist;
                   tp_dist = max (current_price * current_vol * 2) 4;
                   take_profit = current_price + tp_dist;
                   risk_amount = balance * (25 / 10000)
               in if stop_dist = 0 then Inr d
                  else
                    let position_size = quantize 2 (risk_amount / stop_dist);
                        defaults =
                          \<lparr>sig_pk = 0, asset = symbol, timestamp = now, signal_type = ''BUY'',
                           entry_price = current_price, stop_loss = stop_loss,
                           take_profit = take_profit, position_size = position_size,
                           status = ''PENDING'',
                           meta = [''ml_prob'' \<mapsto> JNum p, ''d1_adx'' \<mapsto> JNum (d1_adx m),
                                   ''d1_atr'' \<mapsto> JNum (d1_atr m),
                                   ''strategy'' \<mapsto> JStr ''Hybrid_Trend_v1'']\<rparr>
                    in (case get_or_create_signal d defaults of
                          Inl e \<Rightarrow> Inl e
                        | Inr (signal, created, d1) \<Rightarrow>
                            if created then execute_trade mode now' signal d1 else Inr d1)))"

text \<open>A market on which every gate passes, and an empty store.\<close>

definition example_market :: market where
  "example_market =
     \<lparr>load_failed = False, len_h1 = 480, len_d1 = 70, d1_adx = 30, d1_atr = 25,
      h1_ema200 = 1990, h1_rsi = 40, h1_adx = 25, last_close = 2000, last_open = 1995,
      active_model = True, ml_prob = Some (7 / 10), vol_std = 1 / 2000\<rparr>"

definition empty_db :: db where
  "empty_db = \<lparr>signals = [], orders = [], breaker = None\<rparr>"

text \<open>The fields of a signal that fix the trade: key, side, entry, stop and target.\<close>

definition terms_of :: "TradingSignal \<Rightarrow> nat \<times> string \<times> real \<times> real \<times> real" where
  "terms_of s = (sig_pk s, signal_type s, entry_price s, stop_loss s, take_profit s)"

section \<open>Barrier labeler (apps/analytics/models/train.py)\<close>

text \<open>
  \<open>create_triple_barrier_target\<close> works on two series over one index, so on two lists of
  equal length. Floating-point numbers are taken as reals; a \<open>NaN\<close> cell of \<open>future_p\<close>
  is \<open>None\<close> and compares false with everything; the cells of \<open>first_touch_up\<close> and
  \<open>first_touch_down\<close> are step numbers or \<open>np.inf\<close>.
\<close>

definition upper_barrier :: "real list \<Rightarrow> real list \<Rightarrow> real \<Rightarrow> real list" where
  "upper_barrier prices volatility pt_multiplier =
     map (\<lambda>(p, v). p * (1 + v * pt_multiplier)) (zip prices volatility)"

definition lower_barrier :: "real list \<Rightarrow> real list \<Rightarrow> real \<Rightarrow> real list" where
  "lower_barrier prices volatility sl_multiplier =
     map (\<lambda>(p, v). p * (1 - v * sl_multiplier)) (zip prices volatility)"

text \<open>
  \<open>future_p = np.full(T, np.nan); future_p[:-step] = price_vals[step:]\<close>, for a step of
  at least one.
\<close>

definition future_p :: "real list \<Rightarrow> nat \<Rightarrow> real option list" where
  "future_p price_vals step =
     map Some (drop step price_vals) @ replicate (min step (length price_vals)) None"

text \<open>
  \<open>hit = cmp(future_p, barrier) & (first_touch == np.inf); first_touch[hit] = step\<close>,
  cell by cell.
\<close>

definition mark_touch ::
  "(real \<Rightarrow> real \<Rightarrow> bool) \<Rightarrow> nat \<Rightarrow> real option list \<Rightarrow> real list \<Rightarrow> enat list \<Rightarrow> enat list" where
  "mark_touch cmp step fut barrier first_touch =
     map (\<lambda>(f, b, ft).
            if (case f of None \<Rightarrow> False | Some x \<Rightarrow> cmp x b) \<and> ft = \<infinity> then enat step else ft)
         (zip fut (zip barrier first_touch))"

text \<open>One round of the loop over \<open>step\<close>, on the pair of first-touch arrays.\<close>

definition barrier_step ::
  "real list \<Rightarrow> real list \<Rightarrow> real list \<Rightarrow> nat \<Rightarrow> enat list \<times> enat list \<Rightarrow> enat list \<times> enat list" where
  "barrier_step price_vals upper lower step ft =
     (let fut = future_p price_vals step
      in (mark_touch (\<lambda>x b. x \<ge> b) step fut upper (fst ft),
          mark_touch (\<lambda>x b. x \<le> b) step fut lower (snd ft)))"

text \<open>\<open>for step in range(1, time_horizon + 1)\<close>, from both arrays full of \<open>np.inf\<close>.\<close>

definition first_touches ::
  "real list \<Rightarrow> real list \<Rightarrow> real list \<Rightarrow> nat \<Rightarrow> enat list \<times> enat list" where
  "first_touches price_vals upper lower horizon =
     fold (barrier_step price_vals upper lower) [1..<Suc horizon]
       (replicate (length price_vals) \<infinity>, replicate (length price_vals) \<infinity>)"

text \<open>
  The function itself. \<open>time_horizon\<close> is a Python integer: a horizon below one gives an
  empty range. The labels are the integers of \<open>astype(int)\<close>.
\<close>

definition create_triple_barrier_target ::
  "real list \<Rightarrow> real list \<Rightarrow> int \<Rightarrow> real \<Rightarrow> real \<Rightarrow> real \<Rightarrow> int list" where
  "create_triple_barrier_target prices volatility time_horizon pt_multiplier sl_multiplier min_ret =
     (let upper = upper_barrier prices volatility pt_multiplier;
          lower = lower_barrier prices volatility sl_multiplier;
          (first_touch_up, first_touch_down) = first_touches prices upper lower (nat time_horizon)
      in map (\<lambda>(u, dn, v).
                if (u \<noteq> \<infinity> \<and> u < dn) \<and> v * pt_multiplier > min_ret then 1 else 0)
             (zip first_touch_up (zip first_touch_down volatility)))"

text \<open>
  The labelling rule in the words of the specification, for one index \<open>t\<close>: the first
  forward step \<open>s = 1..H\<close> at which the price \<open>p[t+s]\<close> exists and meets the barrier,
  infinite when there is none.
\<close>

definition spec_first_step :: "(nat \<Rightarrow> bool) \<Rightarrow> nat \<Rightarrow> enat" where
  "spec_first_step touched H =
     (case find touched [1..<Suc H] of None \<Rightarrow> \<infinity> | Some s \<Rightarrow> enat s)"

definition spec_first_up :: "real list \<Rightarrow> real list \<Rightarrow> nat \<Rightarrow> real \<Rightarrow> nat \<Rightarrow> enat" where
  "spec_first_up p v H pt t =
     spec_first_step (\<lambda>s. t + s < length p \<and> p ! (t + s) \<ge> p ! t * (1 + v ! t * pt)) H"

definition spec_first_down :: "real list \<Rightarrow> real list \<Rightarrow> nat \<Rightarrow> real \<Rightarrow> nat \<Rightarrow> enat" where
  "spec_first_down p v H sl t =
     spec_first_step (\<lambda>s. t + s < length p \<and> p ! (t + s) \<le> p ! t * (1 - v ! t * sl)) H"

definition spec_label :: "real list \<Rightarrow> real list \<Rightarrow> nat \<Rightarrow> real \<Rightarrow> real \<Rightarrow> real \<Rightarrow> nat \<Rightarrow> int" where
  "spec_label p v H pt sl min_ret t =
     (if spec_first_up p v H pt t < spec_first_down p v H sl t \<and> v ! t * pt > min_ret
      then 1 else 0)"

section \<open>Position simulator (apps/analytics/backtesting/run.py)\<close>

text \<open>
  One row of the frame \<open>df\<close>: the price frame joined with the signal frame on the index
  and sorted by it. Floating-point numbers are taken as reals.
\<close>

record bar =
  bar_time :: timestamp
  bar_open :: real
  bar_high :: real
  bar_low :: real
  bar_close :: real
  long_signal :: real
  short_signal :: real

text \<open>
  The dictionary \<open>config['backtesting']\<close>: an absent key is \<open>None\<close> here, and so
  is a stop or target percentage given as \<open>None\<close>.
\<close>

record bt_cfg =
  initial_capital :: "real option"
  stop_loss_pct :: "real option"
  take_profit_pct :: "real option"
  slippage_pct :: "real option"
  commission_pct :: "real option"

text \<open>\<open>bt_cfg.get(key, default)\<close>, and the truth value Python gives \<open>sl_pct\<close> in a test.\<close>

definition get_or :: "real option \<Rightarrow> real \<Rightarrow> real" where
  "get_or v dflt = (case v of None \<Rightarrow> dflt | Some x \<Rightarrow> x)"

definition truthy :: "real option \<Rightarrow> bool" where
  "truthy v = (case v of None \<Rightarrow> False | Some x \<Rightarrow> x \<noteq> 0)"

definition slippage :: "bt_cfg \<Rightarrow> real" where
  "slippage cfg = get_or (slippage_pct cfg) (2 / 10000)"

definition commission :: "bt_cfg \<Rightarrow> real" where
  "commission cfg = get_or (commission_pct cfg) (1 / 10000)"

definition initial_cap :: "bt_cfg \<Rightarrow> real" where
  "initial_cap cfg = get_or (initial_capital cfg) 10000"

text \<open>
  The columns \<open>enter_long\<close> and \<open>enter_short\<close>: the signal of the row before is
  positive (\<open>shift(1) > 0\<close>, false on the first row), and a row with both is cleared.
\<close>

definition shift1 :: "bool list \<Rightarrow> bool list" where
  "shift1 xs = take (length xs) (False # xs)"

definition enter_flags :: "bar list \<Rightarrow> (bool \<times> bool) list" where
  "enter_flags df =
     map (\<lambda>(l, s). if l \<and> s then (False, False) else (l, s))
       (zip (shift1 (map (\<lambda>b. long_signal b > 0) df))
            (shift1 (map (\<lambda>b. short_signal b > 0) df)))"

text \<open>The dictionary \<open>position_details\<close> of an open position, and a closed trade.\<close>

record position_details =
  entry_time :: timestamp
  entry_price_after_costs :: real
  stop_price :: "real option"
  tp_price :: "real option"

record trade =
  trade_entry_time :: timestamp
  trade_exit_time :: timestamp
  pnl_pct :: real
  exit_reason :: string
  trade_type :: string

text \<open>
  The variables the loop updates. \<open>in_position\<close> is 0, 1 (long) or -1 (short);
  \<open>details = None\<close> is the empty dictionary.
\<close>

record bt_state =
  trades :: "trade list"
  equity :: "real list"
  dates :: "timestamp list"
  in_position :: int
  details :: "position_details option"

text \<open>
  The exit tests of one bar (lines 49 to 59): the stop is tested first, the target only
  when the stop test fails. The result is the pair \<open>(exit_price, exit_reason)\<close>, both
  \<open>None\<close> when no test holds. A barrier that is \<open>None\<close> is never compared: its test is
  guarded by the same percentage that set it.
\<close>

definition le_barrier :: "real \<Rightarrow> real option \<Rightarrow> bool" where
  "le_barrier x b = (case b of None \<Rightarrow> False | Some y \<Rightarrow> x \<le> y)"

definition ge_barrier :: "real \<Rightarrow> real option \<Rightarrow> bool" where
  "ge_barrier x b = (case b of None \<Rightarrow> False | Some y \<Rightarrow> x \<ge> y)"

definition check_exit ::
  "bt_cfg \<Rightarrow> bar \<Rightarrow> int \<Rightarrow> position_details \<Rightarrow> real option \<times> string option" where
  "check_exit cfg current_row in_pos pd =
     (if in_pos = 1 then
        (if truthy (stop_loss_pct cfg) \<and> le_barrier (bar_low current_row) (stop_price pd)
         then (stop_price pd, Some ''SL'')
         else if truthy (take_profit_pct cfg) \<and> ge_barrier (bar_high current_row) (tp_price pd)
         then (tp_price pd, Some ''TP'')
         else (None, None))
      else if in_pos = - 1 then
        (if truthy (stop_loss_pct cfg) \<and> ge_barrier (bar_high current_row) (stop_price pd)
         then (stop_price pd, Some ''SL'')
         else if truthy (take_profit_pct cfg) \<and> le_barrier (bar_low current_row) (tp_price pd)
         then (tp_price pd, Some ''TP'')
         else (None, None))
      else (None, None))"

text \<open>The return of a closed trade (lines 62 to 68).\<close>

definition trade_pnl :: "bt_cfg \<Rightarrow> int \<Rightarrow> real \<Rightarrow> real \<Rightarrow> real" where
  "trade_pnl cfg in_pos entry_after_costs exit_price =
     (if in_pos = 1
      then (exit_price * (1 - slippage cfg - commission cfg)) / entry_after_costs - 1
      else entry_after_costs / (exit_price * (1 + slippage cfg + commission cfg)) - 1)"

text \<open>
  Part 1 of the loop body (lines 48 to 77). \<open>if exit_price:\<close> is false for \<open>None\<close> and
  for a price of zero.
\<close>

definition exit_step :: "bt_cfg \<Rightarrow> bar \<Rightarrow> bt_state \<Rightarrow> bt_state" where
  "exit_step cfg current_row st =
     (if in_position st \<noteq> 0 then
        (case details st of
           None \<Rightarrow> st
         | Some pd \<Rightarrow>
             (case check_exit cfg current_row (in_position st) pd of
                (Some exit_price, label) \<Rightarrow>
                  if exit_price \<noteq> 0 then
                    (let p = trade_pnl cfg (in_position st) (entry_price_after_costs pd) exit_price
                     in st\<lparr>trades := trades st @
                               [\<lparr>trade_entry_time = entry_time pd,
                                 trade_exit_time = bar_time current_row,
                                 pnl_pct = p,
                                 exit_reason = (case label of Some r \<Rightarrow> r | None \<Rightarrow> ''None''),
                                 trade_type = (if in_position st = 1 then ''LONG'' else ''SHORT'')\<rparr>],
                            equity := equity st @ [last (equity st) * (1 + p)],
                            dates := dates st @ [bar_time current_row],
                            in_position := 0,
                            details := None\<rparr>)
                  else st
              | (None, label) \<Rightarrow> st))
      else st)"

text \<open>Part 2 of the loop body (lines 80 to 100).\<close>

definition barrier_price :: "real option \<Rightarrow> (real \<Rightarrow> real) \<Rightarrow> real option" where
  "barrier_price pct f = (if truthy pct then map_option f pct else None)"

definition entry_step :: "bt_cfg \<Rightarrow> bar \<times> bool \<times> bool \<Rightarrow> bt_state \<Rightarrow> bt_state" where
  "entry_step cfg r st =
     (let current_row = fst r; enter_long = fst (snd r); enter_short = snd (snd r);
          entry_price = bar_open current_row
      in if in_position st = 0 then
           (if enter_long then
              st\<lparr>in_position := 1,
                 details := Some
                   \<lparr>entry_time = bar_time current_row,
                    entry_price_after_costs = entry_price * (1 + slippage cfg + commission cfg),
                    stop_price = barrier_price (stop_loss_pct cfg) (\<lambda>sl. entry_price * (1 - sl)),
                    tp_price = barrier_price (take_profit_pct cfg) (\<lambda>tp. entry_price * (1 + tp))\<rparr>\<rparr>
            else if enter_short then
              st\<lparr>in_position := - 1,
                 details := Some
                   \<lparr>entry_time = bar_time current_row,
                    entry_price_after_costs = entry_price * (1 - slippage cfg - commission cfg),
                    stop_price = barrier_price (stop_loss_pct cfg) (\<lambda>sl. entry_price * (1 + sl)),
                    tp_price = barrier_price (take_profit_pct cfg) (\<lambda>tp. entry_price * (1 - tp))\<rparr>\<rparr>
            else st)
         else st)"

definition bt_step :: "bt_cfg \<Rightarrow> bt_state \<Rightarrow> bar \<times> bool \<times> bool \<Rightarrow> bt_state" where
  "bt_step cfg st r = entry_step cfg r (exit_step cfg (fst r) st)"

text \<open>
  The loop \<open>for i in range(1, len(df))\<close> from the initial variables: the first row is
  never visited. \<open>now\<close> is the time used to date the starting capital of an empty frame.
\<close>

definition init_state :: "timestamp \<Rightarrow> bt_cfg \<Rightarrow> bar list \<Rightarrow> bt_state" where
  "init_state now cfg df =
     \<lparr>trades = [], equity = [initial_cap cfg],
      dates = [case df of [] \<Rightarrow> now | b # _ \<Rightarrow> bar_time b],
      in_position = 0, details = None\<rparr>"

definition backtest_loop :: "timestamp \<Rightarrow> bt_cfg \<Rightarrow> bar list \<Rightarrow> bt_state" where
  "backtest_loop now cfg df =
     foldl (bt_step cfg) (init_state now cfg df) (tl (zip df (enter_flags df)))"

text \<open>
  The metrics (lines 103 to 118). \<open>sharpe_ratio = None\<close> is the \<open>NaN\<close> that the sample
  standard deviation of a single return yields. The equity curve is the list of dated
  capital values.
\<close>

record bt_result =
  total_return_pct :: real
  sharpe_ratio :: "real option"
  max_drawdown_pct :: real
  final_capital :: real
  equity_curve :: "(timestamp \<times> real) list"
  num_trades :: nat
  result_trades :: "trade list"

definition mean :: "real list \<Rightarrow> real" where
  "mean xs = sum_list xs / real (length xs)"

definition sample_std :: "real list \<Rightarrow> real option" where
  "sample_std xs =
     (if length xs < 2 then None
      else Some (sqrt (sum_list (map (\<lambda>x. (x - mean xs)\<^sup>2) xs) / real (length xs - 1))))"

fun cummax :: "real \<Rightarrow> real list \<Rightarrow> real list" where
  "cummax m [] = []"
| "cummax m (x # xs) = max m x # cummax (max m x) xs"

definition drawdowns :: "real list \<Rightarrow> real list" where
  "drawdowns eq =
     (case eq of [] \<Rightarrow> []
      | e # es \<Rightarrow> map (\<lambda>(x, m). (x - m) / m) (zip eq (cummax e eq)))"

definition list_min :: "real list \<Rightarrow> real" where
  "list_min xs = (case xs of [] \<Rightarrow> 0 | y # ys \<Rightarrow> fold min ys y)"

definition run_vectorized_backtest :: "timestamp \<Rightarrow> bt_cfg \<Rightarrow> bar list \<Rightarrow> bt_result" where
  "run_vectorized_backtest now cfg df =
     (let st = backtest_loop now cfg df
      in if trades st = [] then
           \<lparr>total_return_pct = 0, sharpe_ratio = Some 0, max_drawdown_pct = 0,
            final_capital = initial_cap cfg,
            equity_curve = [(hd (dates st), initial_cap cfg)],
            num_trades = 0, result_trades = []\<rparr>
         else
           (let final = last (equity st);
                total_return = final / initial_cap cfg - 1;
                trade_returns = map pnl_pct (trades st);
                sharpe = (case sample_std trade_returns of
                            None \<Rightarrow> None
                          | Some sd \<Rightarrow>
                              Some (mean trade_returns / (if sd \<noteq> 0 then sd else 1 / 10 ^ 9)
                                    * sqrt (252 * 24)));
                max_drawdown = list_min (drawdowns (equity st))
            in \<lparr>total_return_pct = total_return * 100, sharpe_ratio = sharpe,
                max_drawdown_pct = max_drawdown * 100, final_capital = final,
                equity_curve = zip (dates st) (equity st),
                num_trades = length (trades st), result_trades = trades st\<rparr>))"

text \<open>The position size of the risk manager: the risked amount over the stop distance.\<close>

definition risk_size :: "real \<Rightarrow> real \<Rightarrow> real \<Rightarrow> real" where
  "risk_size equity_at_entry risk_fraction stop_distance =
     equity_at_entry * risk_fraction / stop_distance"

text \<open>Concrete frames and configurations for the runs examined below.\<close>

definition mk_bar ::
  "timestamp \<Rightarrow> real \<Rightarrow> real \<Rightarrow> real \<Rightarrow> real \<Rightarrow> real \<Rightarrow> real \<Rightarrow> bar" where
  "mk_bar t op hi lo cl ls ss =
     \<lparr>bar_time = t, bar_open = op, bar_high = hi, bar_low = lo, bar_close = cl,
      long_signal = ls, short_signal = ss\<rparr>"

text \<open>Stop at 2 percent, target at 4 percent, slippage 1 percent, no commission.\<close>

definition example_cfg :: bt_cfg where
  "example_cfg =
     \<lparr>initial_capital = Some 10000, stop_loss_pct = Some (2 / 100),
      take_profit_pct = Some (4 / 100), slippage_pct = Some (1 / 100),
      commission_pct = Some 0\<rparr>"

text \<open>Stop at 50 percent, target at 4 percent, slippage 1 percent, no commission.\<close>

definition wide_stop_cfg :: bt_cfg where
  "wide_stop_cfg =
     \<lparr>initial_capital = Some 10000, stop_loss_pct = Some (1 / 2),
      take_profit_pct = Some (4 / 100), slippage_pct = Some (1 / 100),
      commission_pct = Some 0\<rparr>"

text \<open>Three bars without any signal.\<close>

definition quiet_bars :: "bar list" where
  "quiet_bars =
     [mk_bar 0 100 101 99 100 0 0, mk_bar 1 100 101 99 100 0 0, mk_bar 2 100 130 50 100 0 0]"

text \<open>
  A long signal on bar 0, so an entry at the open of bar 1 (100: stop 98, target 104);
  bars 2, 3 and 4 stay strictly between stop and target.
\<close>

definition drifting_bars :: "bar list" where
  "drifting_bars =
     [mk_bar 0 100 100 100 100 1 0, mk_bar 1 100 101 99 100 0 0, mk_bar 2 100 101 99 100 0 0,
      mk_bar 3 100 101 99 101 0 0, mk_bar 4 101 102 100 101 0 0]"

text \<open>A long signal on bar 0, entry at 100 on bar 1, and the target 104 met on bar 3.\<close>

definition long_target_bars :: "bar list" where
  "long_target_bars =
     [mk_bar 0 100 100 100 100 1 0, mk_bar 1 100 101 99 100 0 0, mk_bar 2 100 101 99 100 0 0,
      mk_bar 3 100 105 99 100 0 0]"

text \<open>A short signal on bar 0, entry at 100 on bar 1, and the target 96 met on bar 3.\<close>

definition short_target_bars :: "bar list" where
  "short_target_bars =
     [mk_bar 0 100 100 100 100 0 1, mk_bar 1 100 101 99 100 0 0, mk_bar 2 100 101 99 100 0 0,
      mk_bar 3 100 101 95 100 0 0]"

text \<open>The state of the loop after the entry on bar 1 of \<open>drifting_bars\<close>.\<close>

definition open_long :: bt_state where
  "open_long =
     \<lparr>trades = [], equity = [10000], dates = [0], in_position = 1,
      details = Some \<lparr>entry_time = 1, entry_price_after_costs = 101,
                       stop_price = Some 98, tp_price = Some 104\<rparr>\<rparr>"

text \<open>
  The two tests of lines 51 to 59 on their own: for a long position the low at or below
  the stop and the high at or above the target, mirrored for a short one; each applies
  only when its percentage is set.
\<close>

definition stop_condition :: "bt_cfg \<Rightarrow> bar \<Rightarrow> int \<Rightarrow> position_details \<Rightarrow> bool" where
  "stop_condition cfg b in_pos pd =
     (truthy (stop_loss_pct cfg)
      \<and> (if in_pos = 1 then le_barrier (bar_low b) (stop_price pd)
          else ge_barrier (bar_high b) (stop_price pd)))"

definition target_condition :: "bt_cfg \<Rightarrow> bar \<Rightarrow> int \<Rightarrow> position_details \<Rightarrow> bool" where
  "target_condition cfg b in_pos pd =
     (truthy (take_profit_pct cfg)
      \<and> (if in_pos = 1 then ge_barrier (bar_high b) (tp_price pd)
          else le_barrier (bar_low b) (tp_price pd)))"

text \<open>
  The equity list follows the trade list: one point more than there are trades, each
  point the one before it plus that trade's return times the one before it.
\<close>

definition equity_follows_trades :: "bt_state \<Rightarrow> bool" where
  "equity_follows_trades st =
     (length (equity st) = Suc (length (trades st))
      \<and> (\<forall>k < length (trades st).
            equity st ! Suc k = equity st ! k + pnl_pct (trades st ! k) * equity st ! k))"

section \<open>Theorems\<close>

subsection \<open>Circuit breaker\<close>

lemma check_existing:
  "check now (Some s) =
     (if is_tripped s
      then (Inl (PermissionError (''Circuit Breaker Tripped: '' @ fmt_reason (reason s))), Some s)
      else (Inr (), Some s))"
  by (simp add: check_def get_or_create_state_def)

lemma check_missing: "check now None = (Inr (), Some (default_breaker_state now))"
  by (simp add: check_def get_or_create_state_def default_breaker_state_def)

text \<open>
  Claim C8. \<open>CircuitBreaker.check\<close> raises exactly when the shared state row has
  \<open>is_tripped\<close> set; when the row is not tripped the call returns normally and leaves the
  row as it was. (When the table holds no row yet, \<open>get_or_create\<close> inserts the default,
  untripped row and the call returns normally.)
\<close>

theorem check_raises_iff_tripped:
  "((\<exists>e. fst (check now (Some s)) = Inl e) \<longleftrightarrow> is_tripped s)
   \<and> (\<not> is_tripped s \<longrightarrow> check now (Some s) = (Inr (), Some s))
   \<and> ((\<exists>e. fst (check now row) = Inl e) \<longleftrightarrow> (\<exists>s'. row = Some s' \<and> is_tripped s'))"
proof -
  have a: "(\<exists>e. fst (check now (Some s)) = Inl e) \<longleftrightarrow> is_tripped s"
    by (simp add: check_existing)
  have b: "\<not> is_tripped s \<longrightarrow> check now (Some s) = (Inr (), Some s)"
    by (simp add: check_existing)
  have c: "(\<exists>e. fst (check now row) = Inl e) \<longleftrightarrow> (\<exists>s'. row = Some s' \<and> is_tripped s')"
    by (cases row) (simp_all add: check_existing check_missing)
  from a b c show ?thesis by blast
qed

theorem check_raises_iff_tripped_witness:
  "\<not> is_tripped (default_breaker_state 7)
   \<and> check 8 (Some (default_breaker_state 7)) = (Inr (), Some (default_breaker_state 7))
   \<and> (\<exists>e. fst (check 8 (Some ((default_breaker_state 7)\<lparr>is_tripped := True\<rparr>))) = Inl e)"
  using check_raises_iff_tripped [of 8 "default_breaker_state 7" None]
        check_raises_iff_tripped [of 8 "(default_breaker_state 7)\<lparr>is_tripped := True\<rparr>" None]
  by (simp add: default_breaker_state_def)

subsection \<open>Risk manager\<close>

lemma tenth_below_float_0_1: "(1 / 10 :: real) < float_0_1"
  by (simp add: float_0_1_def)

text \<open>
  Claim C7. The configuration check is meant to accept a risk fraction exactly in
  \<open>(0, 0.1]\<close>. Every fraction in that interval is accepted and every fraction that is not
  positive is rejected, but the comparison against the double \<open>0.1\<close> also lets through
  fractions strictly larger than one tenth: at \<open>0.10000000000000000001\<close> the manager is
  constructed.
\<close>

theorem RiskManager_init_accepts_above_tenth:
  "(10000000000000000001 / 100000000000000000000 :: real) > 1 / 10
   \<and> RiskManager_init 10000 (10000000000000000001 / 100000000000000000000) df =
       Inr \<lparr>account_balance = 10000,
            risk_per_trade_pct = 10000000000000000001 / 100000000000000000000,
            df_ohlcv = df,
            risk_amount = 10000 * (10000000000000000001 / 100000000000000000000)\<rparr>"
  by (simp add: RiskManager_init_def float_0_1_def)

lemma RiskManager_init_accepts_interval:
  "0 < r \<Longrightarrow> r \<le> 1 / 10 \<Longrightarrow> \<exists>m. RiskManager_init b r df = Inr m"
  using tenth_below_float_0_1 by (simp add: RiskManager_init_def)

lemma RiskManager_init_rejects:
  "r \<le> 0 \<or> float_0_1 \<le> r \<Longrightarrow> \<exists>e. RiskManager_init b r df = Inl (ValueError e)"
  by (auto simp add: RiskManager_init_def)

subsection \<open>Execution manager\<close>

lemma find_Some_props: "find P xs = Some s \<Longrightarrow> P s \<and> list_ex P xs"
  by (induction xs) (auto split: if_splits)

lemma find_map_replace:
  "P s' \<Longrightarrow> find P (map (\<lambda>x. if P x then s' else x) xs) = (if list_ex P xs then Some s' else None)"
  by (induction xs) auto

lemma map_replace_none:
  "filter P xs = [] \<Longrightarrow> map (\<lambda>x. if P x then y else x) xs = xs"
  by (induction xs) (auto split: if_splits)

lemma list_ex_filter_Nil: "list_ex P xs \<longleftrightarrow> filter P xs \<noteq> []"
  by (induction xs) auto

lemma get_signal_Inr:
  "get_signal d pk = Inr s \<Longrightarrow> sig_pk s = pk \<and> list_ex (\<lambda>x. sig_pk x = pk) (signals d)"
  unfolding get_signal_def
  by (auto split: option.splits dest: find_Some_props)

lemma check_untripped:
  "(\<forall>b. row = Some b \<longrightarrow> \<not> is_tripped b) \<Longrightarrow> \<exists>row'. check now row = (Inr (), row')"
  by (cases row) (simp_all add: check_existing check_missing)

lemma execute_trade_not_pending:
  "get_signal d (sig_pk self_signal) = Inr s \<Longrightarrow> status s \<noteq> ''PENDING'' \<Longrightarrow>
   execute_trade mode now self_signal d = Inr d"
  by (simp add: execute_trade_def atomic_block_def)

lemma process_order_demo:
  assumes "orders_of d (sig_pk s) = []" and "mode \<noteq> ''live''"
  shows "\<exists>d1 ord. process_order mode now s d = Inr (d1, ord)
           \<and> orders_of d1 (sig_pk s) = [ord]
           \<and> order_status ord = ''FILLED''
           \<and> d1 = save_signal (d\<lparr>orders := orders d @ [ord]\<rparr>) (s\<lparr>status := ''EXECUTED''\<rparr>)"
proof -
  from assms(1) have nil: "filter (\<lambda>x. order_signal x = sig_pk s) (orders d) = []"
    by (simp add: orders_of_def)
  then have nex: "\<not> list_ex (\<lambda>x. order_signal x = sig_pk s) (orders d)"
    by (simp add: list_ex_filter_Nil)
  show ?thesis
    using nex nil assms(2)
    by (simp add: process_order_def create_order_def save_order_def save_signal_def
        orders_of_def Let_def map_replace_none)
qed

lemma get_signal_save_signal:
  "list_ex (\<lambda>x. sig_pk x = sig_pk s') (signals d) \<Longrightarrow> get_signal (save_signal d s') (sig_pk s') = Inr s'"
  by (simp add: get_signal_def save_signal_def find_map_replace)


lemma orders_of_save_signal [simp]: "orders_of (save_signal d s) pk = orders_of d pk"
  by (simp add: orders_of_def save_signal_def)

text \<open>
  Claim C3. Executing a signal whose stored status is not \<open>PENDING\<close> returns without
  touching any table. A first execution that succeeds (pending signal, breaker not
  tripped, no order yet, demo mode) leaves exactly one order for the signal and the signal
  no longer pending, so every later execution of that signal, from whatever copy of it and
  in whatever mode, is such a no-op and the signal keeps exactly one order.
\<close>

theorem execute_trade_idempotent:
  assumes sig: "get_signal d (sig_pk self_signal) = Inr s"
  shows "(status s \<noteq> ''PENDING'' \<longrightarrow> execute_trade mode now self_signal d = Inr d)
       \<and> (status s = ''PENDING'' \<and> (\<forall>b. breaker d = Some b \<longrightarrow> \<not> is_tripped b)
            \<and> orders_of d (sig_pk self_signal) = [] \<and> mode \<noteq> ''live''
          \<longrightarrow> (\<exists>d1 s1. execute_trade mode now self_signal d = Inr d1
                \<and> length (orders_of d1 (sig_pk self_signal)) = 1
                \<and> get_signal d1 (sig_pk self_signal) = Inr s1 \<and> status s1 \<noteq> ''PENDING''
                \<and> (\<forall>mode' now' self'. sig_pk self' = sig_pk self_signal \<longrightarrow>
                      execute_trade mode' now' self' d1 = Inr d1
                      \<and> length (orders_of d1 (sig_pk self_signal)) = 1)))"
proof (intro conjI impI)
  assume "status s \<noteq> ''PENDING''"
  with sig show "execute_trade mode now self_signal d = Inr d"
    by (rule execute_trade_not_pending)
next
  assume a: "status s = ''PENDING'' \<and> (\<forall>b. breaker d = Some b \<longrightarrow> \<not> is_tripped b)
            \<and> orders_of d (sig_pk self_signal) = [] \<and> mode \<noteq> ''live''"
  from sig have pk: "sig_pk s = sig_pk self_signal"
    and ex: "list_ex (\<lambda>x. sig_pk x = sig_pk self_signal) (signals d)"
    using get_signal_Inr by blast+
  from a obtain row' where chk: "check now (breaker d) = (Inr (), row')"
    using check_untripped by blast
  let ?d0 = "d\<lparr>breaker := row'\<rparr>"
  have "orders_of ?d0 (sig_pk s) = []"
    using a pk by (simp add: orders_of_def)
  with a obtain d1 ord where po: "process_order mode now s ?d0 = Inr (d1, ord)"
    and one: "orders_of d1 (sig_pk s) = [ord]"
    and d1: "d1 = save_signal (?d0\<lparr>orders := orders ?d0 @ [ord]\<rparr>) (s\<lparr>status := ''EXECUTED''\<rparr>)"
    using process_order_demo [of ?d0 s mode now] by blast
  have run: "execute_trade mode now self_signal d = Inr d1"
    using sig a chk po by (simp add: execute_trade_def atomic_block_def)
  have ex': "list_ex (\<lambda>x. sig_pk x = sig_pk (s\<lparr>status := ''EXECUTED''\<rparr>))
               (signals (?d0\<lparr>orders := orders ?d0 @ [ord]\<rparr>))"
    using ex pk by simp
  have got: "get_signal d1 (sig_pk self_signal) = Inr (s\<lparr>status := ''EXECUTED''\<rparr>)"
    using get_signal_save_signal [OF ex'] d1 pk by simp
  have again: "execute_trade mode' now' self' d1 = Inr d1"
    if "sig_pk self' = sig_pk self_signal" for mode' now' self'
    using execute_trade_not_pending [of d1 self' "s\<lparr>status := ''EXECUTED''\<rparr>" mode' now'] got that
    by simp
  show "\<exists>d1 s1. execute_trade mode now self_signal d = Inr d1
                \<and> length (orders_of d1 (sig_pk self_signal)) = 1
                \<and> get_signal d1 (sig_pk self_signal) = Inr s1 \<and> status s1 \<noteq> ''PENDING''
                \<and> (\<forall>mode' now' self'. sig_pk self' = sig_pk self_signal \<longrightarrow>
                      execute_trade mode' now' self' d1 = Inr d1
                      \<and> length (orders_of d1 (sig_pk self_signal)) = 1)"
    using run one pk got again by (intro exI [of _ d1] exI [of _ "s\<lparr>status := ''EXECUTED''\<rparr>"]) simp
qed

lemma example_get: "get_signal example_db (sig_pk example_signal) = Inr example_signal"
  by (simp add: get_signal_def example_db_def example_signal_def)

theorem execute_trade_idempotent_witness:
  "get_signal example_db (sig_pk example_signal) = Inr example_signal
   \<and> status example_signal = ''PENDING''
   \<and> orders_of example_db (sig_pk example_signal) = []
   \<and> (\<exists>d1. execute_trade ''demo'' 9 example_signal example_db = Inr d1
         \<and> length (orders_of d1 (sig_pk example_signal)) = 1
         \<and> execute_trade ''demo'' 10 example_signal d1 = Inr d1)
   \<and> execute_trade ''demo'' 9 example_signal executed_db = Inr executed_db"
proof -
  have g2: "get_signal executed_db (sig_pk example_signal) = Inr (example_signal\<lparr>status := ''EXECUTED''\<rparr>)"
    by (simp add: get_signal_def executed_db_def example_signal_def)
  have noop: "execute_trade ''demo'' 9 example_signal executed_db = Inr executed_db"
    using execute_trade_idempotent [OF g2, of "''demo''" 9] by simp
  have g: "get_signal example_db (sig_pk example_signal) = Inr example_signal"
    by (rule example_get)
  have p: "status example_signal = ''PENDING''"
    by (simp add: example_signal_def)
  have o: "orders_of example_db (sig_pk example_signal) = []"
    by (simp add: orders_of_def example_db_def)
  have b: "\<forall>b. breaker example_db = Some b \<longrightarrow> \<not> is_tripped b"
    by (simp add: example_db_def)
  have m: "''demo'' \<noteq> ''live''" by simp
  from execute_trade_idempotent [OF g, of "''demo''" 9] p o b m
  obtain d1 where "execute_trade ''demo'' 9 example_signal example_db = Inr d1"
    and "length (orders_of d1 (sig_pk example_signal)) = 1"
    and "\<forall>mode' now' self'. sig_pk self' = sig_pk example_signal \<longrightarrow>
           execute_trade mode' now' self' d1 = Inr d1"
    by blast
  with g p o noop show ?thesis by blast
qed

lemma execute_trade_live:
  assumes "get_signal d (sig_pk self_signal) = Inr s" and "status s = ''PENDING''"
    and "\<forall>b. breaker d = Some b \<longrightarrow> \<not> is_tripped b"
  shows "\<exists>err. execute_trade ''live'' now self_signal d = Inr (handle_failure self_signal err d)"
proof -
  from assms(3) obtain row' where "check now (breaker d) = (Inr (), row')"
    using check_untripped by blast
  with assms(1,2) show ?thesis
    by (auto simp add: execute_trade_def atomic_block_def process_order_def create_order_def Let_def)
qed

text \<open>
  Claim C5. An unexpected exception on a pending signal is meant to leave the order marked
  \<open>FAILED\<close>, the signal pending, and nothing re-raised. In live mode the exception is
  raised inside the atomic block after the order was created, so the rollback removes the
  order before \<open>_handle_failure\<close> looks for it: the call returns normally with the
  tables exactly as they were, the signal pending and no order at all.
\<close>

theorem execute_trade_live_failure_leaves_no_order:
  "get_signal example_db (sig_pk example_signal) = Inr example_signal
   \<and> status example_signal = ''PENDING''
   \<and> breaker example_db = None
   \<and> execute_trade ''live'' 9 example_signal example_db = Inr example_db
   \<and> orders_of example_db (sig_pk example_signal) = []"
  by (simp add: execute_trade_def atomic_block_def get_signal_def example_signal_def
      example_db_def check_def get_or_create_state_def default_breaker_state_def
      process_order_def create_order_def handle_failure_def orders_of_def)

subsection \<open>Decision manager\<close>

lemma find_Some_mem: "find P xs = Some s \<Longrightarrow> s \<in> set xs"
  by (induction xs) (auto split: if_splits)

lemma get_signal_mem: "get_signal d pk = Inr s \<Longrightarrow> s \<in> set (signals d)"
  unfolding get_signal_def by (auto split: option.splits dest: find_Some_mem)

lemma terms_of_status [simp]: "terms_of (s\<lparr>status := v\<rparr>) = terms_of s"
  by (simp add: terms_of_def)

lemma terms_of_status_meta [simp]: "terms_of (s\<lparr>status := v, meta := w\<rparr>) = terms_of s"
  by (simp add: terms_of_def)

lemma save_signal_terms:
  "terms_of ` set (signals (save_signal d x)) \<subseteq> insert (terms_of x) (terms_of ` set (signals d))"
  by (auto simp add: save_signal_def)

lemma process_order_terms:
  assumes "process_order mode now s d = Inr (d', ord)"
  shows "terms_of ` set (signals d') \<subseteq> insert (terms_of s) (terms_of ` set (signals d))"
proof -
  from assms have "\<exists>os. d' = save_signal (d\<lparr>orders := os\<rparr>) (s\<lparr>status := ''EXECUTED''\<rparr>)"
    unfolding process_order_def create_order_def save_order_def Let_def
    by (simp split: if_splits) blast
  then obtain os where "d' = save_signal (d\<lparr>orders := os\<rparr>) (s\<lparr>status := ''EXECUTED''\<rparr>)" ..
  then show ?thesis
    using save_signal_terms [of "d\<lparr>orders := os\<rparr>" "s\<lparr>status := ''EXECUTED''\<rparr>"] by simp
qed

lemma atomic_block_terms:
  assumes "atomic_block mode now self_signal d = Inr (d', r)"
  shows "terms_of ` set (signals d') \<subseteq> terms_of ` set (signals d)"
proof (cases "get_signal d (sig_pk self_signal)")
  case (Inl e)
  with assms show ?thesis by (simp add: atomic_block_def)
next
  case (Inr s)
  then have mem: "s \<in> set (signals d)" by (rule get_signal_mem)
  show ?thesis
  proof (cases "status s \<noteq> ''PENDING''")
    case True
    with assms Inr show ?thesis by (auto simp add: atomic_block_def)
  next
    case False
    with assms Inr obtain row' ord where
      "process_order mode now s (d\<lparr>breaker := row'\<rparr>) = Inr (d', ord)"
      by (auto simp add: atomic_block_def split: prod.splits sum.splits)
    from process_order_terms [OF this] mem show ?thesis by auto
  qed
qed

lemma handle_failure_signals [simp]: "signals (handle_failure s e d) = signals d"
  by (simp add: handle_failure_def)

lemma execute_trade_terms:
  assumes "execute_trade mode now self_signal d = Inr d'"
  shows "terms_of ` set (signals d') \<subseteq> insert (terms_of self_signal) (terms_of ` set (signals d))"
proof (cases "atomic_block mode now self_signal d")
  case (Inr p)
  obtain d1 r where "p = (d1, r)" by (cases p)
  with Inr assms have "d' = d1" by (simp add: execute_trade_def)
  with Inr \<open>p = (d1, r)\<close> atomic_block_terms [of mode now self_signal d d' r]
  show ?thesis by auto
next
  case (Inl e)
  show ?thesis
  proof (cases e)
    case (PermissionError m)
    with Inl assms have "d' = handle_cancellation self_signal m d"
      by (simp add: execute_trade_def)
    then show ?thesis
      using save_signal_terms [of d "self_signal\<lparr>status := ''CANCELLED'',
              meta := (meta self_signal)(''cancel_reason'' \<mapsto> JStr m)\<rparr>"]
      by (simp add: handle_cancellation_def)
  qed (use Inl assms in \<open>auto simp add: execute_trade_def\<close>)
qed

lemma fold_max_ge: "x \<in> set xs \<Longrightarrow> x \<le> fold max xs (a::nat)"
proof (induction xs arbitrary: a)
  case Nil then show ?case by simp
next 
  case (Cons y ys)
  have mono: "a \<le> fold max ys a" for a :: nat
    by (induction ys arbitrary: a) (auto intro: order_trans [OF max.cobounded2])
  from Cons show ?case
    using mono [of "max y a"] by auto
qed

lemma fresh_pk_fresh: "fresh_pk d \<notin> sig_pk ` set (signals d)"
proof
  assume "fresh_pk d \<in> sig_pk ` set (signals d)"
  then have "fresh_pk d \<in> set (map sig_pk (signals d))" by simp
  from fold_max_ge [OF this, of 0] show False by (simp add: fresh_pk_def)
qed

text \<open>
  Claim C10. Whatever the market inputs, the store and the execution mode, every signal
  that \<open>run_analysis\<close> adds to the signal table (a row whose key was not there before)
  is a \<open>BUY\<close> with its stop loss strictly below and its take profit strictly above the
  entry price. Decimal arithmetic is taken exactly.
\<close>

theorem run_analysis_creates_buy_only:
  assumes run: "run_analysis mode symbol balance now now' m d = Inr d'"
    and mem: "s \<in> set (signals d')"
    and new: "sig_pk s \<notin> sig_pk ` set (signals d)"
  shows "signal_type s = ''BUY'' \<and> stop_loss s < entry_price s \<and> entry_price s < take_profit s"
proof -
  have old: False if "d' = d"
    using that mem new by auto
  define price where "price = last_close m"
  define stop_dist where "stop_dist = max (price * vol_std m * (15 / 10)) (25 / 10)"
  define tp_dist where "tp_dist = max (price * vol_std m * 2) 4"
  have pos: "0 < stop_dist" "0 < tp_dist"
    by (simp_all add: stop_dist_def tp_dist_def max_def)
  show ?thesis
  proof (cases "d' = d")
    case True
    with old show ?thesis by simp
  next
    case False
    with run obtain p defaults sg created d1 where
      defaults: "defaults = \<lparr>sig_pk = 0, asset = symbol, timestamp = now, signal_type = ''BUY'',
                           entry_price = price, stop_loss = price - stop_dist,
                           take_profit = price + tp_dist,
                           position_size = quantize 2 (balance * (25 / 10000) / stop_dist),
                           status = ''PENDING'',
                           meta = [''ml_prob'' \<mapsto> JNum p, ''d1_adx'' \<mapsto> JNum (d1_adx m),
                                   ''d1_atr'' \<mapsto> JNum (d1_atr m),
                                   ''strategy'' \<mapsto> JStr ''Hybrid_Trend_v1'']\<rparr>"
      and goc: "get_or_create_signal d defaults = Inr (sg, created, d1)"
      and fin: "if created then execute_trade mode now' sg d1 = Inr d' else d' = d1"
      unfolding run_analysis_def Let_def price_def stop_dist_def tp_dist_def
      by (auto split: if_splits option.splits sum.splits prod.splits)
    show ?thesis
    proof (cases created)
      case False
      with goc have "d1 = d"
        by (auto simp add: get_or_create_signal_def Let_def split: list.splits)
      with False fin \<open>d' \<noteq> d\<close> show ?thesis by simp
    next
      case True
      with goc have sg: "sg = defaults\<lparr>sig_pk := fresh_pk d\<rparr>"
        and d1: "signals d1 = signals d @ [sg]"
        by (auto simp add: get_or_create_signal_def Let_def split: list.splits)
      from True fin have "execute_trade mode now' sg d1 = Inr d'" by simp
      from execute_trade_terms [OF this] mem d1
      have "terms_of s = terms_of sg \<or> terms_of s \<in> terms_of ` set (signals d)"
        by auto
      moreover have "terms_of s \<notin> terms_of ` set (signals d)"
        using new by (auto simp add: terms_of_def)
      ultimately have "terms_of s = terms_of sg" by simp
      then show ?thesis
        using pos by (simp add: terms_of_def sg defaults)
    qed
  qed
qed


theorem run_analysis_creates_buy_only_witness:
  "\<exists>d' s. run_analysis ''demo'' ''XAUUSD'' 10000 3 4 example_market empty_db = Inr d'
      \<and> s \<in> set (signals d') \<and> sig_pk s \<notin> sig_pk ` set (signals empty_db)
      \<and> signal_type s = ''BUY'' \<and> stop_loss s < entry_price s \<and> entry_price s < take_profit s"
proof -
  have "\<exists>d' s. run_analysis ''demo'' ''XAUUSD'' 10000 3 4 example_market empty_db = Inr d'
          \<and> signals d' = [s]"
    by (simp add: run_analysis_def example_market_def empty_db_def get_or_create_signal_def
        fresh_pk_def quantize_def round_half_even_def execute_trade_def atomic_block_def
        get_signal_def check_def get_or_create_state_def default_breaker_state_def
        process_order_def create_order_def save_order_def save_signal_def Let_def)
  then obtain d' s where
    run: "run_analysis ''demo'' ''XAUUSD'' 10000 3 4 example_market empty_db = Inr d'"
    and sigs: "signals d' = [s]" by blast
  have mem: "s \<in> set (signals d')" using sigs by simp
  have new: "sig_pk s \<notin> sig_pk ` set (signals empty_db)" by (simp add: empty_db_def)
  from run_analysis_creates_buy_only [OF run mem new] run mem new show ?thesis by blast
qed

subsection \<open>Barrier labeler\<close>

lemma future_p_length [simp]: "length (future_p ps step) = length ps"
  by (simp add: future_p_def)

lemma future_p_nth:
  assumes "t < length ps"
  shows "future_p ps step ! t = (if t + step < length ps then Some (ps ! (t + step)) else None)"
proof (cases "t + step < length ps")
  case True
  then show ?thesis
    by (simp add: future_p_def nth_append add.commute)
next
  case False
  with assms have a: "t - (length ps - step) < min step (length ps)" by arith
  from False have b: "\<not> t < length ps - step" by arith
  from a b show ?thesis
    using False by (simp add: future_p_def nth_append)
qed

lemma mark_touch_length [simp]:
  "length (mark_touch cmp step fut barrier ft) = min (length fut) (min (length barrier) (length ft))"
  by (simp add: mark_touch_def)

lemma mark_touch_nth:
  "t < length fut \<Longrightarrow> t < length barrier \<Longrightarrow> t < length ft \<Longrightarrow>
   mark_touch cmp step fut barrier ft ! t =
     (if (case fut ! t of None \<Rightarrow> False | Some x \<Rightarrow> cmp x (barrier ! t)) \<and> ft ! t = \<infinity>
      then enat step else ft ! t)"
  by (simp add: mark_touch_def)

lemma find_snoc:
  "find P (xs @ [x]) = (case find P xs of None \<Rightarrow> (if P x then Some x else None) | Some y \<Rightarrow> Some y)"
  by (induction xs) auto

lemma spec_first_step_Suc:
  "spec_first_step P (Suc H) =
     (if spec_first_step P H = \<infinity> \<and> P (Suc H) then enat (Suc H) else spec_first_step P H)"
proof -
  have "[1..<Suc (Suc H)] = [1..<Suc H] @ [Suc H]" by simp
  then show ?thesis
    unfolding spec_first_step_def by (simp only: find_snoc) (simp split: option.splits)
qed

lemma spec_first_step_0 [simp]: "spec_first_step P 0 = \<infinity>"
  by (simp add: spec_first_step_def)

lemma first_touches_Suc:
  "first_touches ps up lo (Suc H) = barrier_step ps up lo (Suc H) (first_touches ps up lo H)"
proof -
  have "[1..<Suc (Suc H)] = [1..<Suc H] @ [Suc H]" by simp
  then show ?thesis
    unfolding first_touches_def by (simp only: fold_append) simp
qed

lemma first_touches_length:
  "length up = length ps \<Longrightarrow> length lo = length ps \<Longrightarrow>
   length (fst (first_touches ps up lo H)) = length ps \<and>
   length (snd (first_touches ps up lo H)) = length ps"
proof (induction H)
  case 0
  then show ?case by (simp add: first_touches_def)
next
  case (Suc H)
  then show ?case by (simp add: first_touches_Suc barrier_step_def Let_def)
qed

lemma first_touches_nth:
  assumes "length up = length ps" and "length lo = length ps" and "t < length ps"
  shows "fst (first_touches ps up lo H) ! t =
           spec_first_step (\<lambda>s. t + s < length ps \<and> ps ! (t + s) \<ge> up ! t) H
       \<and> snd (first_touches ps up lo H) ! t =
           spec_first_step (\<lambda>s. t + s < length ps \<and> ps ! (t + s) \<le> lo ! t) H"
proof (induction H)
  case 0
  from assms show ?case by (simp add: first_touches_def)
next
  case (Suc H)
  from first_touches_length [OF assms(1,2), of H]
  have len: "length (fst (first_touches ps up lo H)) = length ps"
    "length (snd (first_touches ps up lo H)) = length ps" by simp_all
  show ?case
    using Suc assms len
    by (simp add: first_touches_Suc barrier_step_def Let_def mark_touch_nth future_p_nth
        spec_first_step_Suc)
qed

lemma upper_barrier_nth:
  "length v = length p \<Longrightarrow> t < length p \<Longrightarrow> upper_barrier p v pt ! t = p ! t * (1 + v ! t * pt)"
  by (simp add: upper_barrier_def)

lemma lower_barrier_nth:
  "length v = length p \<Longrightarrow> t < length p \<Longrightarrow> lower_barrier p v sl ! t = p ! t * (1 - v ! t * sl)"
  by (simp add: lower_barrier_def)

lemma enat_less_not_inf: "(u \<noteq> \<infinity> \<and> u < (dn::enat)) \<longleftrightarrow> u < dn"
  by (cases u) auto

text \<open>
  Claim C4. For every index \<open>t\<close> of two series of equal length, the label computed by
  the vectorised loop is 1 exactly when the first forward step within the horizon at which
  the price meets or exceeds \<open>p[t]*(1+v[t]*pt)\<close> is strictly earlier than the first step
  at which it meets or falls below \<open>p[t]*(1-v[t]*sl)\<close> (a barrier never touched counts
  as infinity) and \<open>v[t]*pt > min_ret\<close>. In particular equal first touches give 0, and
  \<open>v[t]*pt \<le> min_ret\<close> gives 0 whatever the prices. The output has one label per index.
\<close>

theorem barrier_label_first_touch:
  assumes len: "length volatility = length prices" and t: "t < length prices"
  shows "length (create_triple_barrier_target prices volatility H pt sl min_ret) = length prices
       \<and> create_triple_barrier_target prices volatility H pt sl min_ret ! t
           = spec_label prices volatility (nat H) pt sl min_ret t
       \<and> (create_triple_barrier_target prices volatility H pt sl min_ret ! t = 1 \<longleftrightarrow>
            spec_first_up prices volatility (nat H) pt t < spec_first_down prices volatility (nat H) sl t
            \<and> volatility ! t * pt > min_ret)
       \<and> (spec_first_up prices volatility (nat H) pt t = spec_first_down prices volatility (nat H) sl t
            \<longrightarrow> create_triple_barrier_target prices volatility H pt sl min_ret ! t = 0)
       \<and> (volatility ! t * pt \<le> min_ret
            \<longrightarrow> create_triple_barrier_target prices volatility H pt sl min_ret ! t = 0)"
proof -
  let ?up = "upper_barrier prices volatility pt"
  let ?lo = "lower_barrier prices volatility sl"
  let ?ft = "first_touches prices ?up ?lo (nat H)"
  have lu: "length ?up = length prices" and ll: "length ?lo = length prices"
    using len by (simp_all add: upper_barrier_def lower_barrier_def)
  from first_touches_length [OF lu ll, of "nat H"]
  have lf: "length (fst ?ft) = length prices" "length (snd ?ft) = length prices" by simp_all
  from first_touches_nth [OF lu ll t, of "nat H"]
  have u: "fst ?ft ! t = spec_first_up prices volatility (nat H) pt t"
    and d: "snd ?ft ! t = spec_first_down prices volatility (nat H) sl t"
    using len t by (simp_all add: spec_first_up_def spec_first_down_def upper_barrier_nth lower_barrier_nth)
  have L: "length (create_triple_barrier_target prices volatility H pt sl min_ret) = length prices"
    using lf len by (simp add: create_triple_barrier_target_def Let_def split_beta)
  have E: "create_triple_barrier_target prices volatility H pt sl min_ret ! t
           = spec_label prices volatility (nat H) pt sl min_ret t"
    using lf len t u d
    by (simp add: create_triple_barrier_target_def Let_def split_beta spec_label_def enat_less_not_inf)
  show ?thesis
    using L E by (simp add: spec_label_def)
qed


lemma upt_1_4: "[1..<Suc (nat 3)] = [1, 2, 3]"
  by (simp add: upt_rec)

lemma upt_1_2: "[1..<Suc (nat 1)] = [1]"
  by (simp add: upt_rec)

theorem barrier_label_first_touch_witness:
  "length [1 / 100, 1 / 100, 1 / 100, 1 / 100 :: real] = length [100, 101, 103, 99 :: real]
   \<and> (0::nat) < length [100, 101, 103, 99 :: real]
   \<and> spec_first_up [100, 101, 103, 99] [1 / 100, 1 / 100, 1 / 100, 1 / 100] (nat 3) 2 0 = enat 2
   \<and> spec_first_down [100, 101, 103, 99] [1 / 100, 1 / 100, 1 / 100, 1 / 100] (nat 3) (3 / 2) 0 = \<infinity>
   \<and> create_triple_barrier_target [100, 101, 103, 99] [1 / 100, 1 / 100, 1 / 100, 1 / 100]
        3 2 (3 / 2) (5 / 10000) ! 0 = 1
   \<and> spec_first_up [100, 100] [0, 0] (nat 1) 2 0 = enat 1
   \<and> spec_first_down [100, 100] [0, 0] (nat 1) (3 / 2) 0 = enat 1
   \<and> create_triple_barrier_target [100, 100] [0, 0] 1 2 (3 / 2) (5 / 10000) ! 0 = 0"
proof -
  have u: "spec_first_up [100, 101, 103, 99] [1 / 100, 1 / 100, 1 / 100, 1 / 100] (nat 3) 2 0 = enat 2"
    unfolding spec_first_up_def spec_first_step_def upt_1_4 by simp
  have d: "spec_first_down [100, 101, 103, 99] [1 / 100, 1 / 100, 1 / 100, 1 / 100] (nat 3) (3 / 2) 0 = \<infinity>"
    unfolding spec_first_down_def spec_first_step_def upt_1_4 by simp
  have u0: "spec_first_up [100, 100] [0, 0] (nat 1) 2 0 = enat 1"
    unfolding spec_first_up_def spec_first_step_def upt_1_2 by simp
  have d0: "spec_first_down [100, 100] [0, 0] (nat 1) (3 / 2) 0 = enat 1"
    unfolding spec_first_down_def spec_first_step_def upt_1_2 by simp
  have a: "create_triple_barrier_target [100, 101, 103, 99] [1 / 100, 1 / 100, 1 / 100, 1 / 100]
        3 2 (3 / 2) (5 / 10000) ! 0 = 1"
    using barrier_label_first_touch [of "[1 / 100, 1 / 100, 1 / 100, 1 / 100]" "[100, 101, 103, 99]" 0
        3 2 "3 / 2" "5 / 10000"] u d
    by simp
  have b: "create_triple_barrier_target [100, 100] [0, 0] 1 2 (3 / 2) (5 / 10000) ! 0 = 0"
    using barrier_label_first_touch [of "[0, 0]" "[100, 100]" 0 1 2 "3 / 2" "5 / 10000"] u0 d0
    by simp
  from u d u0 d0 a b show ?thesis by simp
qed

subsection \<open>Position simulator\<close>

lemma exit_step_flat [simp]: "in_position st = 0 \<Longrightarrow> exit_step cfg b st = st"
  by (simp add: exit_step_def)

lemma bt_step_flat_no_entry:
  "in_position st = 0 \<Longrightarrow> \<not> fst (snd r) \<Longrightarrow> \<not> snd (snd r) \<Longrightarrow> bt_step cfg st r = st"
  by (simp add: bt_step_def entry_step_def Let_def)

lemma foldl_flat_no_entry:
  "in_position st = 0 \<Longrightarrow> \<forall>r \<in> set rows. \<not> fst (snd r) \<and> \<not> snd (snd r) \<Longrightarrow>
   foldl (bt_step cfg) st rows = st"
  by (induction rows) (simp_all add: bt_step_flat_no_entry)

lemma set_shift1: "set (shift1 xs) \<subseteq> insert False (set xs)"
proof -
  have "set (take (length xs) (False # xs)) \<subseteq> set (False # xs)" by (rule set_take_subset)
  then show ?thesis by (simp add: shift1_def)
qed

lemma enter_flags_no_signal:
  assumes "\<forall>b \<in> set df. \<not> long_signal b > 0 \<and> \<not> short_signal b > 0"
  shows "\<forall>f \<in> set (enter_flags df). \<not> fst f \<and> \<not> snd f"
proof -
  from assms have "set (map (\<lambda>b. long_signal b > 0) df) \<subseteq> {False}"
    and "set (map (\<lambda>b. short_signal b > 0) df) \<subseteq> {False}" by auto
  with set_shift1 [of "map (\<lambda>b. long_signal b > 0) df"]
    set_shift1 [of "map (\<lambda>b. short_signal b > 0) df"]
  have l: "set (shift1 (map (\<lambda>b. long_signal b > 0) df)) \<subseteq> {False}"
    and s: "set (shift1 (map (\<lambda>b. short_signal b > 0) df)) \<subseteq> {False}" by blast+
  show ?thesis
  proof
    fix f assume "f \<in> set (enter_flags df)"
    then obtain l' s' where z: "(l', s') \<in> set (zip (shift1 (map (\<lambda>b. long_signal b > 0) df))
            (shift1 (map (\<lambda>b. short_signal b > 0) df)))"
      and f: "f = (if l' \<and> s' then (False, False) else (l', s'))"
      by (auto simp add: enter_flags_def)
    from z l s have "\<not> l'" "\<not> s'" by (auto dest: set_zip_leftD set_zip_rightD)
    with f show "\<not> fst f \<and> \<not> snd f" by simp
  qed
qed

lemma no_signal_loop:
  assumes "\<forall>b \<in> set df. \<not> long_signal b > 0 \<and> \<not> short_signal b > 0"
  shows "backtest_loop now cfg df = init_state now cfg df"
proof -
  have "\<forall>r \<in> set (tl (zip df (enter_flags df))). \<not> fst (snd r) \<and> \<not> snd (snd r)"
  proof
    fix r assume "r \<in> set (tl (zip df (enter_flags df)))"
    then have "r \<in> set (zip df (enter_flags df))" by (cases "zip df (enter_flags df)") auto
    then have "snd r \<in> set (enter_flags df)"
      using set_zip_rightD [of "fst r" "snd r" df "enter_flags df"] by simp
    with enter_flags_no_signal [OF assms] show "\<not> fst (snd r) \<and> \<not> snd (snd r)" by blast
  qed
  then show ?thesis
    unfolding backtest_loop_def by (intro foldl_flat_no_entry) (simp_all add: init_state_def)
qed

lemma exit_step_hd_dates: "dates st \<noteq> [] \<Longrightarrow>
  dates (exit_step cfg b st) \<noteq> [] \<and> hd (dates (exit_step cfg b st)) = hd (dates st)"
  by (auto simp add: exit_step_def Let_def split: option.splits prod.splits)

lemma entry_step_dates [simp]: "dates (entry_step cfg r st) = dates st"
  by (simp add: entry_step_def Let_def)

lemma foldl_hd_dates: "dates st \<noteq> [] \<Longrightarrow>
  dates (foldl (bt_step cfg) st rows) \<noteq> [] \<and> hd (dates (foldl (bt_step cfg) st rows)) = hd (dates st)"
proof (induction rows arbitrary: st)
  case Nil then show ?case by simp
next
  case (Cons r rows)
  from exit_step_hd_dates [OF Cons.prems, of cfg "fst r"]
  have "dates (bt_step cfg st r) \<noteq> []" "hd (dates (bt_step cfg st r)) = hd (dates st)"
    by (simp_all add: bt_step_def)
  with Cons.IH [of "bt_step cfg st r"] show ?case by simp
qed

lemma loop_hd_dates:
  "hd (dates (backtest_loop now cfg df)) = (case df of [] \<Rightarrow> now | b # _ \<Rightarrow> bar_time b)"
  using foldl_hd_dates [of "init_state now cfg df" cfg "tl (zip df (enter_flags df))"]
  by (simp add: backtest_loop_def init_state_def)

text \<open>
  Claim C9. Whenever the loop closes no trade, the result is the neutral one: total
  return 0, Sharpe ratio 0, maximum drawdown 0, no trades, final capital equal to the
  initial capital, and a one-point equity curve. This is the case for every frame without
  a positive signal, for the empty frame and for a frame of one row. The function is
  total: no branch of it divides or indexes before the test for an empty trade list.
\<close>

theorem zero_trades_neutral_result:
  "(trades (backtest_loop now cfg df) = [] \<longrightarrow>
      run_vectorized_backtest now cfg df =
        \<lparr>total_return_pct = 0, sharpe_ratio = Some 0, max_drawdown_pct = 0,
         final_capital = initial_cap cfg,
         equity_curve = [(case df of [] \<Rightarrow> now | b # _ \<Rightarrow> bar_time b, initial_cap cfg)],
         num_trades = 0, result_trades = []\<rparr>)
   \<and> ((\<forall>b \<in> set df. \<not> long_signal b > 0 \<and> \<not> short_signal b > 0) \<longrightarrow>
        trades (backtest_loop now cfg df) = [])
   \<and> trades (backtest_loop now cfg []) = []
   \<and> (\<forall>b. trades (backtest_loop now cfg [b]) = [])"
proof -
  have a: "trades (backtest_loop now cfg df) = [] \<longrightarrow>
      run_vectorized_backtest now cfg df =
        \<lparr>total_return_pct = 0, sharpe_ratio = Some 0, max_drawdown_pct = 0,
         final_capital = initial_cap cfg,
         equity_curve = [(case df of [] \<Rightarrow> now | b # _ \<Rightarrow> bar_time b, initial_cap cfg)],
         num_trades = 0, result_trades = []\<rparr>"
    by (simp add: run_vectorized_backtest_def Let_def loop_hd_dates)
  have b: "(\<forall>b \<in> set df. \<not> long_signal b > 0 \<and> \<not> short_signal b > 0) \<longrightarrow>
        trades (backtest_loop now cfg df) = []"
    by (auto simp add: no_signal_loop init_state_def)
  have c: "trades (backtest_loop now cfg []) = []"
    by (simp add: backtest_loop_def init_state_def enter_flags_def shift1_def)
  have d: "trades (backtest_loop now cfg [b]) = []" for b
    by (simp add: backtest_loop_def init_state_def enter_flags_def shift1_def)
  from a b c d show ?thesis by blast
qed

theorem zero_trades_neutral_result_witness:
  "map (\<lambda>b. (long_signal b > 0, short_signal b > 0)) quiet_bars
     = [(False, False), (False, False), (False, False)]
   \<and> trades (backtest_loop 7 example_cfg quiet_bars) = []
   \<and> run_vectorized_backtest 7 example_cfg quiet_bars =
        \<lparr>total_return_pct = 0, sharpe_ratio = Some 0, max_drawdown_pct = 0,
         final_capital = 10000, equity_curve = [(0, 10000)],
         num_trades = 0, result_trades = []\<rparr>"
proof -
  have m: "map (\<lambda>b. (long_signal b > 0, short_signal b > 0)) quiet_bars
             = [(False, False), (False, False), (False, False)]"
    by (simp add: quiet_bars_def mk_bar_def)
  have q: "\<forall>b \<in> set quiet_bars. \<not> long_signal b > 0 \<and> \<not> short_signal b > 0"
    by (simp add: quiet_bars_def mk_bar_def)
  have c: "initial_cap example_cfg = 10000"
    by (simp add: initial_cap_def get_or_def example_cfg_def)
  have h: "(case quiet_bars of [] \<Rightarrow> 7 | b # _ \<Rightarrow> bar_time b) = 0"
    by (simp add: quiet_bars_def mk_bar_def)
  from zero_trades_neutral_result [of 7 example_cfg quiet_bars] q c h
  have "trades (backtest_loop 7 example_cfg quiet_bars) = []
        \<and> run_vectorized_backtest 7 example_cfg quiet_bars =
        \<lparr>total_return_pct = 0, sharpe_ratio = Some 0, max_drawdown_pct = 0,
         final_capital = 10000, equity_curve = [(0, 10000)],
         num_trades = 0, result_trades = []\<rparr>"
    by simp
  with m show ?thesis by simp
qed

lemmas bt_eval = backtest_loop_def init_state_def enter_flags_def shift1_def bt_step_def
  exit_step_def entry_step_def check_exit_def trade_pnl_def barrier_price_def truthy_def
  le_barrier_def ge_barrier_def slippage_def commission_def initial_cap_def get_or_def
  mk_bar_def Let_def


lemma drifting_loop:
  "backtest_loop 0 example_cfg drifting_bars =
     \<lparr>trades = [], equity = [10000], dates = [0], in_position = 1,
      details = Some \<lparr>entry_time = 1, entry_price_after_costs = 101,
                       stop_price = Some 98, tp_price = Some 104\<rparr>\<rparr>"
  by (simp add: bt_eval example_cfg_def drifting_bars_def)

text \<open>
  Claim C2 says a position that meets neither stop nor target within the maximum holding
  horizon is closed at that bar's close with reason \<open>TIME\<close>. The loop has no holding
  horizon: on \<open>drifting_bars\<close> the long position entered on bar 1 meets neither barrier
  on the three bars that follow, and the run ends with the position still open and no
  trade recorded, whatever horizon of one to three bars is meant.
\<close>

theorem time_exit_counterexample:
  "in_position (backtest_loop 0 example_cfg drifting_bars) = 1
   \<and> details (backtest_loop 0 example_cfg drifting_bars) =
       Some \<lparr>entry_time = 1, entry_price_after_costs = 101,
             stop_price = Some 98, tp_price = Some 104\<rparr>
   \<and> map (\<lambda>b. check_exit example_cfg b 1
               \<lparr>entry_time = 1, entry_price_after_costs = 101,
                stop_price = Some 98, tp_price = Some 104\<rparr>) (drop 2 drifting_bars)
       = [(None, None), (None, None), (None, None)]
   \<and> trades (backtest_loop 0 example_cfg drifting_bars) = []
   \<and> result_trades (run_vectorized_backtest 0 example_cfg drifting_bars) = []"
  by (simp add: drifting_loop run_vectorized_backtest_def)
    (simp add: drifting_bars_def example_cfg_def check_exit_def truthy_def le_barrier_def
      ge_barrier_def mk_bar_def)


lemma exit_step_no_touch:
  assumes "details st = Some pd" and "fst (check_exit cfg b (in_position st) pd) = None"
  shows "exit_step cfg b st = st"
proof -
  obtain x l where "check_exit cfg b (in_position st) pd = (x, l)" by force
  with assms show ?thesis by (simp add: exit_step_def)
qed

lemma entry_step_in_position: "in_position st \<noteq> 0 \<Longrightarrow> entry_step cfg r st = st"
  by (simp add: entry_step_def Let_def)

lemma bt_step_no_touch:
  "in_position st \<noteq> 0 \<Longrightarrow> details st = Some pd \<Longrightarrow>
   fst (check_exit cfg (fst r) (in_position st) pd) = None \<Longrightarrow> bt_step cfg st r = st"
  by (simp add: bt_step_def exit_step_no_touch entry_step_in_position)

lemma exit_step_reasons:
  assumes "\<forall>t \<in> set (trades st). exit_reason t = ''SL'' \<or> exit_reason t = ''TP''"
  shows "\<forall>t \<in> set (trades (exit_step cfg b st)). exit_reason t = ''SL'' \<or> exit_reason t = ''TP''"
proof (cases "in_position st \<noteq> 0 \<and> details st \<noteq> None")
  case False
  with assms show ?thesis by (auto simp add: exit_step_def split: option.splits)
next
  case True
  then obtain pd where pd: "details st = Some pd" by auto
  obtain x l where ce: "check_exit cfg b (in_position st) pd = (x, l)" by force
  then have "x = None \<or> l = Some ''SL'' \<or> l = Some ''TP''"
    by (auto simp add: check_exit_def split: if_splits)
  with assms True pd ce show ?thesis
    by (cases x) (auto simp add: exit_step_def Let_def)
qed

lemma entry_step_trades [simp]: "trades (entry_step cfg r st) = trades st"
  by (simp add: entry_step_def Let_def)

lemma foldl_reasons:
  "\<forall>t \<in> set (trades st). exit_reason t = ''SL'' \<or> exit_reason t = ''TP'' \<Longrightarrow>
   \<forall>t \<in> set (trades (foldl (bt_step cfg) st rows)). exit_reason t = ''SL'' \<or> exit_reason t = ''TP''"
proof (induction rows arbitrary: st)
  case Nil then show ?case by simp
next
  case (Cons r rows)
  from exit_step_reasons [OF Cons.prems, of cfg "fst r"]
  have "\<forall>t \<in> set (trades (bt_step cfg st r)). exit_reason t = ''SL'' \<or> exit_reason t = ''TP''"
    by (simp add: bt_step_def)
  from Cons.IH [OF this] show ?case by simp
qed

text \<open>
  Claim C2, amended. An open position that meets neither its stop nor its target on any
  of the following bars, however many, is not closed: the loop leaves trades, equity and
  position as they were. The only exit reasons a recorded trade can have are \<open>SL\<close>
  and \<open>TP\<close>.
\<close>

theorem untouched_position_stays_open:
  "(in_position st \<noteq> 0 \<and> details st = Some pd
      \<and> (\<forall>r \<in> set rows. fst (check_exit cfg (fst r) (in_position st) pd) = None)
     \<longrightarrow> foldl (bt_step cfg) st rows = st)
   \<and> (\<forall>t \<in> set (trades (backtest_loop now cfg df)).
         exit_reason t = ''SL'' \<or> exit_reason t = ''TP'')"
proof (intro conjI impI)
  assume a: "in_position st \<noteq> 0 \<and> details st = Some pd
      \<and> (\<forall>r \<in> set rows. fst (check_exit cfg (fst r) (in_position st) pd) = None)"
  then show "foldl (bt_step cfg) st rows = st"
    by (induction rows) (simp_all add: bt_step_no_touch)
next
  show "\<forall>t \<in> set (trades (backtest_loop now cfg df)).
         exit_reason t = ''SL'' \<or> exit_reason t = ''TP''"
    unfolding backtest_loop_def by (rule foldl_reasons) (simp add: init_state_def)
qed

lemma map_all_eq: "map f xs = ys \<Longrightarrow> \<forall>y \<in> set ys. y = c \<Longrightarrow> \<forall>x \<in> set xs. f x = c"
  by auto

theorem untouched_position_stays_open_witness:
  "in_position open_long \<noteq> 0
   \<and> map (\<lambda>r. fst (check_exit example_cfg (fst r) (in_position open_long)
                      \<lparr>entry_time = 1, entry_price_after_costs = 101,
                       stop_price = Some 98, tp_price = Some 104\<rparr>))
         (drop 2 (zip drifting_bars (enter_flags drifting_bars))) = [None, None, None]
   \<and> foldl (bt_step example_cfg) open_long (drop 2 (zip drifting_bars (enter_flags drifting_bars)))
       = open_long"
proof -
  let ?pd = "\<lparr>entry_time = 1, entry_price_after_costs = 101,
                stop_price = Some 98, tp_price = Some 104\<rparr>"
  let ?rows = "drop 2 (zip drifting_bars (enter_flags drifting_bars))"
  have p: "in_position open_long \<noteq> 0" by (simp add: open_long_def)
  have d: "details open_long = Some ?pd" by (simp add: open_long_def)
  have m: "map (\<lambda>r. fst (check_exit example_cfg (fst r) (in_position open_long) ?pd)) ?rows
             = [None, None, None]"
    by (simp add: drifting_bars_def enter_flags_def shift1_def open_long_def example_cfg_def
        check_exit_def truthy_def le_barrier_def ge_barrier_def mk_bar_def)
  have n: "\<forall>r \<in> set ?rows. fst (check_exit example_cfg (fst r) (in_position open_long) ?pd) = None"
    by (rule map_all_eq [OF m]) simp
  from untouched_position_stays_open [of open_long ?pd ?rows example_cfg 0 "[]"] p d n
  have "foldl (bt_step example_cfg) open_long ?rows = open_long" by blast
  with p m show ?thesis by simp
qed

lemma long_target_loop:
  "backtest_loop 0 example_cfg long_target_bars =
     \<lparr>trades = [\<lparr>trade_entry_time = 1, trade_exit_time = 3, pnl_pct = 49 / 2525,
                  exit_reason = ''TP'', trade_type = ''LONG''\<rparr>],
      equity = [10000, 1029600 / 101], dates = [0, 3], in_position = 0, details = None\<rparr>"
  by (simp add: bt_eval example_cfg_def long_target_bars_def)

text \<open>
  Claim C6 says slippage is applied on stop exits only. On \<open>long_target_bars\<close> the long
  position entered at 100 (101 after costs) leaves at its target 104 with slippage 1
  percent and no commission: the recorded return is that of selling at 104 less the
  slippage, not that of selling at 104.
\<close>

theorem target_exit_slippage_counterexample:
  "trades (backtest_loop 0 example_cfg long_target_bars) =
     [\<lparr>trade_entry_time = 1, trade_exit_time = 3, pnl_pct = 49 / 2525,
       exit_reason = ''TP'', trade_type = ''LONG''\<rparr>]
   \<and> slippage example_cfg = 1 / 100 \<and> commission example_cfg = 0
   \<and> (49 / 2525 :: real) = 104 * (1 - 1 / 100 - 0) / 101 - 1
   \<and> (49 / 2525 :: real) \<noteq> 104 * (1 - 0) / 101 - 1"
proof -
  have "slippage example_cfg = 1 / 100" and "commission example_cfg = 0"
    by (simp_all add: slippage_def commission_def get_or_def example_cfg_def)
  then show ?thesis by (simp add: long_target_loop)
qed

lemma check_exit_stop_first:
  "in_pos = 1 \<or> in_pos = - 1 \<Longrightarrow> stop_condition cfg b in_pos pd \<Longrightarrow>
   check_exit cfg b in_pos pd = (stop_price pd, Some ''SL'')"
  by (auto simp add: check_exit_def stop_condition_def)

lemma check_exit_target_second:
  "in_pos = 1 \<or> in_pos = - 1 \<Longrightarrow> \<not> stop_condition cfg b in_pos pd \<Longrightarrow>
   target_condition cfg b in_pos pd \<Longrightarrow>
   check_exit cfg b in_pos pd = (tp_price pd, Some ''TP'')"
  by (auto simp add: check_exit_def stop_condition_def target_condition_def)

lemma exit_step_close:
  assumes "details st = Some pd" and "in_position st \<noteq> 0"
    and "check_exit cfg b (in_position st) pd = (Some x, Some r)" and "x \<noteq> 0"
  shows "exit_step cfg b st =
     st\<lparr>trades := trades st @
            [\<lparr>trade_entry_time = entry_time pd, trade_exit_time = bar_time b,
              pnl_pct = trade_pnl cfg (in_position st) (entry_price_after_costs pd) x,
              exit_reason = r,
              trade_type = (if in_position st = 1 then ''LONG'' else ''SHORT'')\<rparr>],
         equity := equity st @
            [last (equity st) * (1 + trade_pnl cfg (in_position st) (entry_price_after_costs pd) x)],
         dates := dates st @ [bar_time b], in_position := 0, details := None\<rparr>"
  using assms by (simp add: exit_step_def Let_def)

text \<open>
  Claim C6, amended. On every bar with a position open the stop condition is tested
  before the target condition: when the stop condition holds the exit is at the stop
  price with reason \<open>SL\<close>, whatever the target condition; the exit is at the target
  price with reason \<open>TP\<close> only when the stop condition fails. The trade closes at that
  barrier price, adjusted by slippage and commission in the same way on stop and on
  target exits.
\<close>

theorem stop_checked_first_costs_on_every_exit:
  assumes "details st = Some pd" and "in_position st = 1 \<or> in_position st = - 1"
  shows "(stop_condition cfg b (in_position st) pd \<longrightarrow>
            check_exit cfg b (in_position st) pd = (stop_price pd, Some ''SL''))
       \<and> (\<not> stop_condition cfg b (in_position st) pd \<and> target_condition cfg b (in_position st) pd \<longrightarrow>
            check_exit cfg b (in_position st) pd = (tp_price pd, Some ''TP''))
       \<and> (check_exit cfg b (in_position st) pd = (Some x, Some r) \<and> x \<noteq> 0 \<longrightarrow>
            trades (exit_step cfg b st) = trades st @
              [\<lparr>trade_entry_time = entry_time pd, trade_exit_time = bar_time b,
                pnl_pct =
                  (if in_position st = 1
                   then x * (1 - slippage cfg - commission cfg) / entry_price_after_costs pd - 1
                   else entry_price_after_costs pd / (x * (1 + slippage cfg + commission cfg)) - 1),
                exit_reason = r,
                trade_type = (if in_position st = 1 then ''LONG'' else ''SHORT'')\<rparr>])"
proof (intro conjI impI)
  assume "stop_condition cfg b (in_position st) pd"
  with assms(2) show "check_exit cfg b (in_position st) pd = (stop_price pd, Some ''SL'')"
    by (rule check_exit_stop_first)
next
  assume "\<not> stop_condition cfg b (in_position st) pd \<and> target_condition cfg b (in_position st) pd"
  with assms(2) show "check_exit cfg b (in_position st) pd = (tp_price pd, Some ''TP'')"
    by (simp add: check_exit_target_second)
next
  assume a: "check_exit cfg b (in_position st) pd = (Some x, Some r) \<and> x \<noteq> 0"
  from assms(2) have nz: "in_position st \<noteq> 0" by auto
  from a have c: "check_exit cfg b (in_position st) pd = (Some x, Some r)" and x: "x \<noteq> 0"
    by simp_all
  show "trades (exit_step cfg b st) = trades st @
              [\<lparr>trade_entry_time = entry_time pd, trade_exit_time = bar_time b,
                pnl_pct =
                  (if in_position st = 1
                   then x * (1 - slippage cfg - commission cfg) / entry_price_after_costs pd - 1
                   else entry_price_after_costs pd / (x * (1 + slippage cfg + commission cfg)) - 1),
                exit_reason = r,
                trade_type = (if in_position st = 1 then ''LONG'' else ''SHORT'')\<rparr>]"
    by (simp add: exit_step_close [OF assms(1) nz c x] trade_pnl_def)
qed

lemma open_long_facts:
  "details open_long = Some \<lparr>entry_time = 1, entry_price_after_costs = 101,
                              stop_price = Some 98, tp_price = Some 104\<rparr>"
  "in_position open_long = 1" "trades open_long = []"
  by (simp_all add: open_long_def)

theorem stop_checked_first_costs_on_every_exit_witness:
  "stop_condition example_cfg (mk_bar 3 100 105 97 100 0 0) 1
     \<lparr>entry_time = 1, entry_price_after_costs = 101, stop_price = Some 98, tp_price = Some 104\<rparr>
   \<and> target_condition example_cfg (mk_bar 3 100 105 97 100 0 0) 1
     \<lparr>entry_time = 1, entry_price_after_costs = 101, stop_price = Some 98, tp_price = Some 104\<rparr>
   \<and> trades (exit_step example_cfg (mk_bar 3 100 105 97 100 0 0) open_long) =
       [\<lparr>trade_entry_time = 1, trade_exit_time = 3,
         pnl_pct = 98 * (1 - 1 / 100 - 0) / 101 - 1,
         exit_reason = ''SL'', trade_type = ''LONG''\<rparr>]
   \<and> \<not> stop_condition example_cfg (mk_bar 3 100 105 99 100 0 0) 1
     \<lparr>entry_time = 1, entry_price_after_costs = 101, stop_price = Some 98, tp_price = Some 104\<rparr>
   \<and> trades (exit_step example_cfg (mk_bar 3 100 105 99 100 0 0) open_long) =
       [\<lparr>trade_entry_time = 1, trade_exit_time = 3,
         pnl_pct = 104 * (1 - 1 / 100 - 0) / 101 - 1,
         exit_reason = ''TP'', trade_type = ''LONG''\<rparr>]"
proof -
  let ?pd = "\<lparr>entry_time = 1, entry_price_after_costs = 101, stop_price = Some 98,
              tp_price = Some 104\<rparr>"
  let ?b1 = "mk_bar 3 100 105 97 100 0 0"
  let ?b2 = "mk_bar 3 100 105 99 100 0 0"
  have pos: "in_position open_long = 1 \<or> in_position open_long = - 1"
    by (simp add: open_long_facts)
  have s1: "stop_condition example_cfg ?b1 1 ?pd"
    and t1: "target_condition example_cfg ?b1 1 ?pd"
    and s2: "\<not> stop_condition example_cfg ?b2 1 ?pd"
    and t2: "target_condition example_cfg ?b2 1 ?pd"
    by (simp_all add: stop_condition_def target_condition_def example_cfg_def truthy_def
        le_barrier_def ge_barrier_def mk_bar_def)
  have sc: "slippage example_cfg = 1 / 100" "commission example_cfg = 0"
    by (simp_all add: slippage_def commission_def get_or_def example_cfg_def)
  note T1 = stop_checked_first_costs_on_every_exit [OF open_long_facts(1) pos, of example_cfg ?b1 98 "''SL''"]
  note T2 = stop_checked_first_costs_on_every_exit [OF open_long_facts(1) pos, of example_cfg ?b2 104 "''TP''"]
  have a: "trades (exit_step example_cfg ?b1 open_long) =
       [\<lparr>trade_entry_time = 1, trade_exit_time = 3,
         pnl_pct = 98 * (1 - 1 / 100 - 0) / 101 - 1,
         exit_reason = ''SL'', trade_type = ''LONG''\<rparr>]"
    using T1 s1 sc by (simp add: open_long_facts mk_bar_def)
  have b: "trades (exit_step example_cfg ?b2 open_long) =
       [\<lparr>trade_entry_time = 1, trade_exit_time = 3,
         pnl_pct = 104 * (1 - 1 / 100 - 0) / 101 - 1,
         exit_reason = ''TP'', trade_type = ''LONG''\<rparr>]"
    using T2 s2 t2 sc by (simp add: open_long_facts mk_bar_def)
  from s1 t1 s2 a b show ?thesis by simp
qed

lemma wide_stop_loop:
  "backtest_loop 0 wide_stop_cfg long_target_bars =
     \<lparr>trades = [\<lparr>trade_entry_time = 1, trade_exit_time = 3, pnl_pct = 49 / 2525,
                  exit_reason = ''TP'', trade_type = ''LONG''\<rparr>],
      equity = [10000, 1029600 / 101], dates = [0, 3], in_position = 0, details = None\<rparr>"
  by (simp add: bt_eval wide_stop_cfg_def long_target_bars_def)

lemma short_target_loop:
  "backtest_loop 0 example_cfg short_target_bars =
     \<lparr>trades = [\<lparr>trade_entry_time = 1, trade_exit_time = 3, pnl_pct = 17 / 808,
                  exit_reason = ''TP'', trade_type = ''SHORT''\<rparr>],
      equity = [10000, 1031250 / 101], dates = [0, 3], in_position = 0, details = None\<rparr>"
  by (simp add: bt_eval example_cfg_def short_target_bars_def)

lemma no_risk_size_fits:
  assumes "0 < rf" and "rf \<le> 1 / 10" and "sd = 50 \<or> sd = 1 / 2"
  shows "(1029600 / 101 :: real) \<noteq> 10000 + 49 / 2525 * risk_size 10000 rf sd"
proof -
  have a: "risk_size 10000 rf 50 = 200 * rf" by (simp add: risk_size_def)
  have b: "risk_size 10000 rf (1 / 2) = 20000 * rf" by (simp add: risk_size_def)
  from assms(3) a b
  have "risk_size 10000 rf sd = 200 * rf \<or> risk_size 10000 rf sd = 20000 * rf"
    by blast
  with assms(1,2) have "risk_size 10000 rf sd \<le> 2000" by auto
  then have "10000 + 49 / 2525 * risk_size 10000 rf sd \<le> 10000 + 49 / 2525 * 2000"
    by simp
  then show ?thesis by simp
qed

text \<open>
  Claim C1 says the equity grows by the return times a position size of equity times risk
  fraction over stop distance, and that the return of either side is the cost-adjusted
  (exit - entry) / entry with the side's sign. On \<open>long_target_bars\<close> with a 50 percent
  stop the one trade returns 49/2525 and the equity goes from 10000 to 1029600/101, which
  no risk fraction in (0, 0.1] reproduces, whether the stop distance is taken in price
  units (50) or as a fraction (1/2). On \<open>short_target_bars\<close> the short trade (99 after
  costs at entry, 96 times 1.01 at exit) returns 17/808, not the negated
  (exit - entry) / entry.
\<close>

theorem risk_sized_equity_counterexample:
  "map pnl_pct (trades (backtest_loop 0 wide_stop_cfg long_target_bars)) = [49 / 2525]
   \<and> equity (backtest_loop 0 wide_stop_cfg long_target_bars) = [10000, 1029600 / 101]
   \<and> \<not> (\<exists>rf sd. 0 < rf \<and> rf \<le> 1 / 10 \<and> (sd = 50 \<or> sd = 1 / 2)
            \<and> (1029600 / 101 :: real) = 10000 + 49 / 2525 * risk_size 10000 rf sd)
   \<and> map pnl_pct (trades (backtest_loop 0 example_cfg short_target_bars)) = [17 / 808]
   \<and> (17 / 808 :: real) \<noteq> - ((96 * (1 + 1 / 100 + 0) - 99) / 99)"
  using no_risk_size_fits by (simp add: wide_stop_loop short_target_loop) blast

lemma exit_step_preserves:
  assumes "equity_follows_trades st"
  shows "equity_follows_trades (exit_step cfg b st)"
proof (cases "exit_step cfg b st = st")
  case True
  with assms show ?thesis by simp
next
  case False
  then obtain pd x l where pd: "details st = Some pd" and nz: "in_position st \<noteq> 0"
    and ce: "check_exit cfg b (in_position st) pd = (Some x, l)" and x: "x \<noteq> 0"
    by (auto simp add: exit_step_def split: option.splits prod.splits if_splits)
  define p where "p = trade_pnl cfg (in_position st) (entry_price_after_costs pd) x"
  from pd nz ce x have tr: "\<exists>t. trades (exit_step cfg b st) = trades st @ [t] \<and> pnl_pct t = p"
    and eq: "equity (exit_step cfg b st) = equity st @ [last (equity st) * (1 + p)]"
    by (simp_all add: exit_step_def Let_def p_def)
  from tr obtain t where t: "trades (exit_step cfg b st) = trades st @ [t]" "pnl_pct t = p" by blast
  from assms have len: "length (equity st) = Suc (length (trades st))"
    and old: "\<forall>k < length (trades st).
            equity st ! Suc k = equity st ! k + pnl_pct (trades st ! k) * equity st ! k"
    by (simp_all add: equity_follows_trades_def)
  from len have ne: "equity st \<noteq> []" by auto
  have lst: "last (equity st) = equity st ! length (trades st)"
    using len ne by (simp add: last_conv_nth)
  have "equity (exit_step cfg b st) ! Suc k
          = equity (exit_step cfg b st) ! k
            + pnl_pct (trades (exit_step cfg b st) ! k) * equity (exit_step cfg b st) ! k"
    if "k < length (trades (exit_step cfg b st))" for k
  proof (cases "k < length (trades st)")
    case True
    with old len show ?thesis by (simp add: t eq nth_append)
  next
    case False
    with that have "k = length (trades st)" by (simp add: t)
    then show ?thesis
      using len lst by (simp add: t eq nth_append algebra_simps)
  qed
  then show ?thesis
    using len by (simp add: equity_follows_trades_def t eq)
qed

lemma entry_step_equity [simp]: "equity (entry_step cfg r st) = equity st"
  by (simp add: entry_step_def Let_def)

lemma bt_step_preserves:
  "equity_follows_trades st \<Longrightarrow> equity_follows_trades (bt_step cfg st r)"
  using exit_step_preserves [of st cfg "fst r"]
  by (simp add: bt_step_def equity_follows_trades_def)

lemma foldl_preserves:
  "equity_follows_trades st \<Longrightarrow> equity_follows_trades (foldl (bt_step cfg) st rows)"
  by (induction rows arbitrary: st) (simp_all add: bt_step_preserves)

lemma loop_equity_follows_trades: "equity_follows_trades (backtest_loop now cfg df)"
  unfolding backtest_loop_def
  by (rule foldl_preserves) (simp add: equity_follows_trades_def init_state_def)

text \<open>
  Claim C1, amended. When a trade closes, its recorded return is, for a long position,
  (exit - entry) / entry and, for a short position, (entry - exit) / exit, each price
  adjusted by slippage and commission; and the equity list gets exactly one new point,
  the last equity plus that return times the last equity. Over a whole run the equity
  list has one point more than there are trades, each point the one before it compounded
  by the return of the corresponding trade: the whole equity is the position size, and no
  risk fraction or stop distance enters.
\<close>

theorem closed_trade_return_and_equity:
  "(details st = Some pd \<and> in_position st \<noteq> 0
      \<and> check_exit cfg b (in_position st) pd = (Some x, Some r) \<and> x \<noteq> 0
      \<and> entry_price_after_costs pd \<noteq> 0 \<and> 1 + slippage cfg + commission cfg \<noteq> 0
    \<longrightarrow> (let e = entry_price_after_costs pd;
              exit_long = x * (1 - slippage cfg - commission cfg);
              exit_short = x * (1 + slippage cfg + commission cfg);
              p = (if in_position st = 1 then (exit_long - e) / e else (e - exit_short) / exit_short)
          in map pnl_pct (trades (exit_step cfg b st)) = map pnl_pct (trades st) @ [p]
             \<and> equity (exit_step cfg b st) = equity st @ [last (equity st) + p * last (equity st)]))
   \<and> equity_follows_trades (backtest_loop now cfg df)"
proof (intro conjI impI)
  assume a: "details st = Some pd \<and> in_position st \<noteq> 0
      \<and> check_exit cfg b (in_position st) pd = (Some x, Some r) \<and> x \<noteq> 0
      \<and> entry_price_after_costs pd \<noteq> 0 \<and> 1 + slippage cfg + commission cfg \<noteq> 0"
  then have pd: "details st = Some pd" and nz: "in_position st \<noteq> 0"
    and ce: "check_exit cfg b (in_position st) pd = (Some x, Some r)" and x: "x \<noteq> 0"
    and e: "entry_price_after_costs pd \<noteq> 0" and c: "1 + slippage cfg + commission cfg \<noteq> 0"
    by simp_all
  have pl: "x * (1 - slippage cfg - commission cfg) / entry_price_after_costs pd - 1
          = (x * (1 - slippage cfg - commission cfg) - entry_price_after_costs pd)
              / entry_price_after_costs pd"
    using e by (simp add: diff_divide_distrib)
  have ps: "entry_price_after_costs pd / (x * (1 + slippage cfg + commission cfg)) - 1
          = (entry_price_after_costs pd - x * (1 + slippage cfg + commission cfg))
              / (x * (1 + slippage cfg + commission cfg))"
    using x c by (simp add: diff_divide_distrib)
  show "let e = entry_price_after_costs pd;
              exit_long = x * (1 - slippage cfg - commission cfg);
              exit_short = x * (1 + slippage cfg + commission cfg);
              p = (if in_position st = 1 then (exit_long - e) / e else (e - exit_short) / exit_short)
          in map pnl_pct (trades (exit_step cfg b st)) = map pnl_pct (trades st) @ [p]
             \<and> equity (exit_step cfg b st) = equity st @ [last (equity st) + p * last (equity st)]"
    unfolding Let_def
    using pl ps by (simp add: exit_step_close [OF pd nz ce x] trade_pnl_def algebra_simps)
next
  show "equity_follows_trades (backtest_loop now cfg df)"
    by (rule loop_equity_follows_trades)
qed


theorem closed_trade_return_and_equity_witness:
  "details open_long = Some \<lparr>entry_time = 1, entry_price_after_costs = 101,
                              stop_price = Some 98, tp_price = Some 104\<rparr>
   \<and> in_position open_long \<noteq> 0
   \<and> check_exit example_cfg (mk_bar 3 100 105 99 100 0 0) (in_position open_long)
        \<lparr>entry_time = 1, entry_price_after_costs = 101, stop_price = Some 98, tp_price = Some 104\<rparr>
       = (Some 104, Some ''TP'')
   \<and> map pnl_pct (trades (exit_step example_cfg (mk_bar 3 100 105 99 100 0 0) open_long))
       = [(104 * (1 - 1 / 100 - 0) - 101) / 101]
   \<and> equity (exit_step example_cfg (mk_bar 3 100 105 99 100 0 0) open_long)
       = [10000, 10000 + (104 * (1 - 1 / 100 - 0) - 101) / 101 * 10000]
   \<and> length (equity (backtest_loop 0 example_cfg long_target_bars))
       = Suc (length (trades (backtest_loop 0 example_cfg long_target_bars)))
   \<and> equity (backtest_loop 0 example_cfg long_target_bars) ! Suc 0
       = equity (backtest_loop 0 example_cfg long_target_bars) ! 0
         + pnl_pct (trades (backtest_loop 0 example_cfg long_target_bars) ! 0)
           * equity (backtest_loop 0 example_cfg long_target_bars) ! 0"
proof -
  let ?pd = "\<lparr>entry_time = 1, entry_price_after_costs = 101, stop_price = Some 98,
              tp_price = Some 104\<rparr>"
  let ?b = "mk_bar 3 100 105 99 100 0 0"
  have d: "details open_long = Some ?pd" and p: "in_position open_long \<noteq> 0"
    and q: "in_position open_long = 1"
    and t: "trades open_long = []" and e: "equity open_long = [10000]"
    by (simp_all add: open_long_def)
  have ce: "check_exit example_cfg ?b (in_position open_long) ?pd = (Some 104, Some ''TP'')"
    by (simp add: q check_exit_def example_cfg_def truthy_def le_barrier_def ge_barrier_def
        mk_bar_def)
  have sc: "slippage example_cfg = 1 / 100" "commission example_cfg = 0"
    by (simp_all add: slippage_def commission_def get_or_def example_cfg_def)
  from closed_trade_return_and_equity [of open_long ?pd example_cfg ?b 104 "''TP''" 0 long_target_bars]
    d p ce sc
  have "map pnl_pct (trades (exit_step example_cfg ?b open_long))
          = [(104 * (1 - 1 / 100 - 0) - 101) / 101]
        \<and> equity (exit_step example_cfg ?b open_long)
          = [10000, 10000 + (104 * (1 - 1 / 100 - 0) - 101) / 101 * 10000]
        \<and> equity_follows_trades (backtest_loop 0 example_cfg long_target_bars)"
    by (simp add: Let_def q t e)
  moreover have "0 < length (trades (backtest_loop 0 example_cfg long_target_bars))"
    by (simp add: long_target_loop)
  ultimately show ?thesis
    using d p ce unfolding equity_follows_trades_def by blast
qed

end
